theory Spec2Isabelle
  imports Main "HOL-Library.Word"
begin

section \<open>Model judgments and validation (frontend, model/types.ts)\<close>

text \<open>
  The source text of this part is the second document of \<^verbatim>\<open>src/packages/frontend/src/App.tsx\<close>
  (lines 121 to 207). Identifiers are UUID strings. The declarations \<^verbatim>\<open>ObDecl\<close>,
  \<^verbatim>\<open>MorDecl\<close>, \<^verbatim>\<open>ObType\<close> and \<^verbatim>\<open>MorType\<close> are imported from the
  package \<^verbatim>\<open>catlog-wasm\<close>, whose text is not part of the sources at hand.
\<close>

type_synonym Uuid = string

text \<open>
  Modelled from the spec: the type references \<^verbatim>\<open>ObType\<close> and \<^verbatim>\<open>MorType\<close> of
  \<^verbatim>\<open>catlog-wasm\<close> are missing; the spec calls both a \<^verbatim>\<open>TheoryTypeRef\<close>. The two
  shapes kept here are the ones the frontend itself matches on
  (\<^verbatim>\<open>{tag: "Hom", content: {tag: "Basic", content: "Object"}}\<close>).
\<close>

datatype ObType = ObBasic string | Tabulator MorType
  and MorType = MorBasic string | Hom ObType

text \<open>
  \<^verbatim>\<open>ObjectDecl = ObDecl & {tag: "object"; name: string}\<close> and
  \<^verbatim>\<open>MorphismDecl = MorDecl & {tag: "morphism"; name: string}\<close>. The tag is the
  constructor of \<open>ModelJudgment\<close> below. Following the spec's data model, \<open>dom\<close> and
  \<open>cod\<close> are nullable references to an object by its id.
\<close>

record ObjectDecl =
  ob_id :: Uuid
  ob_name :: string
  obType :: ObType

record MorphismDecl =
  mor_id :: Uuid
  mor_name :: string
  morType :: MorType
  dom :: "Uuid option"
  cod :: "Uuid option"

text \<open>
  The type \<^verbatim>\<open>ModelJudgment\<close> is the closed union of the two declarations, yet
  \<^verbatim>\<open>catlogModel\<close> dispatches on the tag at run time with an \<^verbatim>\<open>if\<close> /
  \<^verbatim>\<open>else if\<close> that has no final \<^verbatim>\<open>else\<close>. A judgment read from a stored
  document with any other tag is the third constructor, carrying that tag.
\<close>

datatype ModelJudgment =
    Object ObjectDecl
  | Morphism MorphismDecl
  | Unrecognized string

text \<open>
  \<^verbatim>\<open>newObjectDecl\<close> and \<^verbatim>\<open>newMorphismDecl\<close>; the fresh id that \<^verbatim>\<open>uuidv7()\<close>
  draws is an argument.
\<close>

definition newObjectDecl :: "Uuid \<Rightarrow> ObType \<Rightarrow> ModelJudgment" where
  "newObjectDecl fresh t = Object \<lparr>ob_id = fresh, ob_name = [], obType = t\<rparr>"

definition newMorphismDecl :: "Uuid \<Rightarrow> MorType \<Rightarrow> ModelJudgment" where
  "newMorphismDecl fresh t =
     Morphism \<lparr>mor_id = fresh, mor_name = [], morType = t, dom = None, cod = None\<rparr>"

text \<open>
  Of a double theory (\<^verbatim>\<open>DblTheory\<close>, from \<^verbatim>\<open>catlog-wasm\<close>) the frontend code
  reads the field \<^verbatim>\<open>kind\<close> only.
\<close>

record DblTheory =
  kind :: string

text \<open>
  The class \<^verbatim>\<open>DblModel\<close> of \<^verbatim>\<open>catlog-wasm\<close> is missing. The frontend code uses
  its constructor and three of its methods; they are the fields of a
  \<open>DblModel_class\<close>, functions on the contents \<open>'m\<close> of a model, with \<open>'r\<close> the
  type \<^verbatim>\<open>ModelValidationResult\<close> of validation results.
\<close>

record ('m, 'r) DblModel_class =
  construct :: "DblTheory \<Rightarrow> 'm"
  addOb :: "'m \<Rightarrow> ObjectDecl \<Rightarrow> 'm"
  addMor :: "'m \<Rightarrow> MorphismDecl \<Rightarrow> 'm"
  validate :: "'m \<Rightarrow> 'r"

text \<open>
  \<^verbatim>\<open>new DblModel(theory)\<close> creates a mutable object that \<^verbatim>\<open>addOb\<close> and
  \<^verbatim>\<open>addMor\<close> then update in place. The objects created so far form the store,
  a list indexed by address; creation appends a fresh object and returns its address.
\<close>

type_synonym addr = nat

definition new_DblModel ::
  "('m, 'r) DblModel_class \<Rightarrow> 'm list \<Rightarrow> DblTheory \<Rightarrow> addr \<times> 'm list" where
  "new_DblModel cls h t = (length h, h @ [construct cls t])"

text \<open>The body of the \<^verbatim>\<open>for\<close> loop of \<^verbatim>\<open>catlogModel\<close>, for the model at address \<open>a\<close>.\<close>

fun add_judgment ::
  "('m, 'r) DblModel_class \<Rightarrow> addr \<Rightarrow> 'm list \<Rightarrow> ModelJudgment \<Rightarrow> 'm list" where
  "add_judgment cls a h (Object d) = h[a := addOb cls (h ! a) d]"
| "add_judgment cls a h (Morphism d) = h[a := addMor cls (h ! a) d]"
| "add_judgment cls a h (Unrecognized t) = h"

text \<open>
  \<^verbatim>\<open>catlogModel(theory, judgments)\<close>: a new model, then the loop over the judgments
  in sequence order; the result is the address of the model.
\<close>

definition catlogModel ::
  "('m, 'r) DblModel_class \<Rightarrow> 'm list \<Rightarrow> DblTheory \<Rightarrow> ModelJudgment list
     \<Rightarrow> addr \<times> 'm list" where
  "catlogModel cls h t judgments =
     (let (a, h1) = new_DblModel cls h t
      in (a, foldl (add_judgment cls a) h1 judgments))"

text \<open>\<^verbatim>\<open>ValidatedModel = {model: DblModel; result: ModelValidationResult}\<close>.\<close>

record 'r ValidatedModel =
  model :: addr
  result :: 'r

text \<open>\<^verbatim>\<open>validateModel(theory, judgments)\<close>; \<^verbatim>\<open>undefined\<close> is \<open>None\<close>.\<close>

definition validateModel ::
  "('m, 'r) DblModel_class \<Rightarrow> 'm list \<Rightarrow> DblTheory \<Rightarrow> ModelJudgment list
     \<Rightarrow> 'r ValidatedModel option \<times> 'm list" where
  "validateModel cls h t judgments =
     (if kind t \<noteq> ''Discrete'' then (None, h)
      else
        (let (a, h') = catlogModel cls h t judgments;
             r = validate cls (h' ! a)
         in (Some \<lparr>model = a, result = r\<rparr>, h')))"

text \<open>
  Modelled from the spec: the contents of a \<^verbatim>\<open>DblModel\<close> of \<^verbatim>\<open>catlog-wasm\<close>, which
  is missing. For the spec a valid model contains exactly the declared objects and
  morphisms in declaration order: a model is its theory together with the objects and
  the morphisms added so far, oldest first.
\<close>

record DblModel =
  the_theory :: DblTheory
  obs :: "ObjectDecl list"
  mors :: "MorphismDecl list"

text \<open>
  Modelled from the spec: the missing type \<^verbatim>\<open>ModelValidationResult\<close>, for the spec
  \<^verbatim>\<open>Ok(model) | Err(list of structural errors)\<close>, each error identifying the
  offending judgment's id, as in \<^verbatim>\<open>Err([{judgment:2, kind:"dangling-cod"}])\<close>.
\<close>

record InvalidJudgment =
  inv_judgment :: Uuid
  inv_kind :: string

datatype ModelValidationResult = Ok DblModel | Err "InvalidJudgment list"

text \<open>
  Modelled from the spec: the structural violation of the missing validation. For the
  spec \<open>dom\<close> and \<open>cod\<close>, if non-null, reference ids that may be missing, and a
  dangling reference is a validation error: a reference dangles when it is non-null and
  names the id of no object of the model.
\<close>

definition dangling :: "ObjectDecl list \<Rightarrow> Uuid option \<Rightarrow> bool" where
  "dangling os r = (case r of None \<Rightarrow> False | Some x \<Rightarrow> x \<notin> set (map ob_id os))"

text \<open>
  Modelled from the spec: the errors that the missing validation reports for one
  morphism, each naming the morphism's id and the kind of the violation.
\<close>

definition morphism_errors :: "ObjectDecl list \<Rightarrow> MorphismDecl \<Rightarrow> InvalidJudgment list" where
  "morphism_errors os m =
     (if dangling os (dom m) then [\<lparr>inv_judgment = mor_id m, inv_kind = ''dangling-dom''\<rparr>] else []) @
     (if dangling os (cod m) then [\<lparr>inv_judgment = mor_id m, inv_kind = ''dangling-cod''\<rparr>] else [])"

text \<open>
  Modelled from the spec: \<^verbatim>\<open>DblModel.validate\<close> of \<^verbatim>\<open>catlog-wasm\<close>, which is
  missing. For the spec the result is \<open>Err\<close> iff there is at least one structural
  violation, and \<open>Ok\<close> of the model otherwise.
\<close>

definition validate_spec :: "DblModel \<Rightarrow> ModelValidationResult" where
  "validate_spec m =
     (let errs = concat (map (morphism_errors (obs m)) (mors m))
      in if errs = [] then Ok m else Err errs)"

text \<open>
  Modelled from the spec: the class \<^verbatim>\<open>DblModel\<close> of \<^verbatim>\<open>catlog-wasm\<close>, which is
  missing. For the spec the model is built by folding the judgments strictly in
  notebook order, object judgments being added first-come: a new model has no objects
  and no morphisms, and adding appends.
\<close>

definition DblModel_spec :: "(DblModel, ModelValidationResult) DblModel_class" where
  "DblModel_spec =
     \<lparr>construct = (\<lambda>t. \<lparr>the_theory = t, obs = [], mors = []\<rparr>),
      addOb = (\<lambda>m d. m\<lparr>obs := obs m @ [d]\<rparr>),
      addMor = (\<lambda>m d. m\<lparr>mors := mors m @ [d]\<rparr>),
      validate = validate_spec\<rparr>"

text \<open>
  The object and the morphism declarations of a judgment sequence, in sequence order,
  and the sequences in which every morphism's \<open>dom\<close> and \<open>cod\<close> name an object
  declared earlier in the sequence (\<open>seen\<close> holds the ids declared so far).
\<close>

fun declared_obs :: "ModelJudgment list \<Rightarrow> ObjectDecl list" where
  "declared_obs [] = []"
| "declared_obs (Object d # js) = d # declared_obs js"
| "declared_obs (j # js) = declared_obs js"

fun declared_mors :: "ModelJudgment list \<Rightarrow> MorphismDecl list" where
  "declared_mors [] = []"
| "declared_mors (Morphism d # js) = d # declared_mors js"
| "declared_mors (j # js) = declared_mors js"

definition resolves :: "Uuid list \<Rightarrow> Uuid option \<Rightarrow> bool" where
  "resolves seen r = (case r of None \<Rightarrow> False | Some x \<Rightarrow> x \<in> set seen)"

fun well_scoped :: "Uuid list \<Rightarrow> ModelJudgment list \<Rightarrow> bool" where
  "well_scoped seen [] = True"
| "well_scoped seen (Object d # js) = well_scoped (ob_id d # seen) js"
| "well_scoped seen (Morphism d # js) =
     (resolves seen (dom d) \<and> resolves seen (cod d) \<and> well_scoped seen js)"
| "well_scoped seen (Unrecognized t # js) = well_scoped seen js"

text \<open>The loop of \<^verbatim>\<open>catlogModel\<close> on a model held as a value.\<close>

fun add_pure :: "('m, 'r) DblModel_class \<Rightarrow> 'm \<Rightarrow> ModelJudgment \<Rightarrow> 'm" where
  "add_pure cls m (Object d) = addOb cls m d"
| "add_pure cls m (Morphism d) = addMor cls m d"
| "add_pure cls m (Unrecognized t) = m"

text \<open>
  What a caller can observe of a validation: the contents of the model it was
  handed, read from the store, and the result.
\<close>

definition observed :: "'m list \<Rightarrow> 'r ValidatedModel option \<Rightarrow> ('m \<times> 'r) option" where
  "observed h v = map_option (\<lambda>vm. (h ! model vm, result vm)) v"

section \<open>Analysis documents (frontend, analysis/document.ts)\<close>

text \<open>\<^verbatim>\<open>ExternRef\<close> as \<^verbatim>\<open>newAnalysisDocument\<close> builds it.\<close>

record ExternRef =
  ref_tag :: string
  refId :: string
  taxon :: string

text \<open>
  Modelled from the spec: the type \<^verbatim>\<open>Notebook\<close> of the module \<^verbatim>\<open>notebook\<close>,
  which is missing. For the spec a notebook is an ordered sequence of cells.
\<close>

record 'c Notebook =
  cells :: "'c list"

text \<open>
  Modelled from the spec: \<^verbatim>\<open>newNotebook\<close> of the module \<^verbatim>\<open>notebook\<close>, which is
  missing. For the spec a notebook is created empty when its owning document is
  created.
\<close>

definition newNotebook :: "'c Notebook" where
  "newNotebook = \<lparr>cells = []\<rparr>"

record 'c AnalysisDocument =
  name :: string
  type :: string
  modelRef :: ExternRef
  notebook :: "'c Notebook"

definition newAnalysisDocument :: "string \<Rightarrow> 'c AnalysisDocument" where
  "newAnalysisDocument modelRefId =
     \<lparr>name = [],
      type = ''analysis'',
      modelRef = \<lparr>ref_tag = ''extern-ref'', refId = modelRefId, taxon = ''model''\<rparr>,
      notebook = newNotebook\<rparr>"

section \<open>The analysis page (frontend, document/analysis\_document\_editor.tsx)\<close>

text \<open>
  \<^verbatim>\<open>retrieveDoc<T>\<close> returns whatever document is stored under the ref; the type
  argument is erased at run time. Of a retrieved document the page reads the
  discriminator \<^verbatim>\<open>type\<close>, which may be missing, and the reference to the model as
  \<^verbatim>\<open>doc.modelRef.__extern__.refId\<close> (lines 74 and 78). The value stored under
  \<^verbatim>\<open>modelRef\<close>, if there is one, either has the property \<^verbatim>\<open>__extern__\<close>, holding
  the ref id and the taxon, or lacks it, as a reference of the shape
  \<^verbatim>\<open>{tag, refId, taxon}\<close> that \<^verbatim>\<open>newAnalysisDocument\<close> builds does. The rest of
  the document is \<open>body\<close>.
\<close>

record Extern =
  ext_refId :: string
  ext_taxon :: string

datatype modelRef_value = WithExtern Extern | WithoutExtern ExternRef

record 'b RetrievedDoc =
  doc_type :: "string option"
  doc_modelRef :: "modelRef_value option"
  body :: 'b

record ('b, 'h, 'lm) LiveAnalysisDocument =
  la_refId :: string
  la_doc :: "'b RetrievedDoc"
  la_docHandle :: 'h
  liveModel :: 'lm

text \<open>
  What makes the resource of \<^verbatim>\<open>AnalysisPage\<close> fail: an exception or a rejection
  from one of the functions it calls, a failed \<^verbatim>\<open>invariant\<close> with its message, or
  the \<^verbatim>\<open>TypeError\<close> of reading a property of \<^verbatim>\<open>undefined\<close>.
\<close>

datatype 'e load_error = Rejected 'e | InvariantFailed string | TypeError

text \<open>
  The body of the resource of \<^verbatim>\<open>AnalysisPage\<close> (lines 64 to 90); \<open>ref\<close> is
  \<^verbatim>\<open>params.ref\<close>. Three functions that it calls are missing and are arguments, each
  of which may fail: \<^verbatim>\<open>retrieveDoc\<close> of the module \<^verbatim>\<open>api\<close>, with client and
  repository supplied; \<^verbatim>\<open>whenReady\<close> of a document handle; and
  \<^verbatim>\<open>enlivenModelDocument\<close>, with the library of theories supplied. Reading
  \<^verbatim>\<open>doc.modelRef.__extern__.refId\<close> throws a \<^verbatim>\<open>TypeError\<close> when
  \<^verbatim>\<open>modelRef\<close> or its property \<^verbatim>\<open>__extern__\<close> is \<^verbatim>\<open>undefined\<close>.
\<close>

definition AnalysisPage ::
  "(string \<Rightarrow> 'e + ('b RetrievedDoc \<times> 'h)) \<Rightarrow> ('h \<Rightarrow> 'e + unit)
     \<Rightarrow> (string \<Rightarrow> 'b RetrievedDoc \<Rightarrow> 'h \<Rightarrow> 'e + 'lm) \<Rightarrow> string
     \<Rightarrow> 'e load_error + ('b, 'h, 'lm) LiveAnalysisDocument" where
  "AnalysisPage retrieveDoc whenReady enliven ref =
     (case retrieveDoc ref of
        Inl e \<Rightarrow> Inl (Rejected e)
      | Inr (doc, docHandle) \<Rightarrow>
          (case whenReady docHandle of
             Inl e \<Rightarrow> Inl (Rejected e)
           | Inr _ \<Rightarrow>
               if doc_type doc \<noteq> Some ''analysis'' then
                 Inl (InvariantFailed (''Expected analysis document, got type: '' @
                        (case doc_type doc of None \<Rightarrow> ''undefined'' | Some s \<Rightarrow> s)))
               else
                 (case doc_modelRef doc of
                    None \<Rightarrow> Inl TypeError
                  | Some (WithoutExtern r) \<Rightarrow> Inl TypeError
                  | Some (WithExtern x) \<Rightarrow>
                      (case retrieveDoc (ext_refId x) of
                         Inl e \<Rightarrow> Inl (Rejected e)
                       | Inr (modelDoc, modelDocHandle) \<Rightarrow>
                           (case enliven (ext_refId x) modelDoc modelDocHandle of
                              Inl e \<Rightarrow> Inl (Rejected e)
                            | Inr lm \<Rightarrow>
                                Inr \<lparr>la_refId = ref, la_doc = doc, la_docHandle = docHandle,
                                     liveModel = lm\<rparr>)))))"

text \<open>
  Modelled from the spec: the errors of the Reference Resolver, which is missing. For
  the spec a \<^verbatim>\<open>ReferenceError\<close> is a ref that is not found, or a resolved document
  whose type is not the expected taxon.
\<close>

datatype ReferenceError = RefNotFound string | TaxonMismatch string "string option"

text \<open>
  Modelled from the spec: the type \<^verbatim>\<open>LiveDocument\<close>, whose declaration is missing.
  For the spec a live document is the ref id, the current snapshot and the means to
  change it.
\<close>

record ('b, 'h) LiveDocument =
  ld_refId :: string
  ld_doc :: "'b RetrievedDoc"
  ld_docHandle :: 'h

text \<open>
  Modelled from the spec: the second half of the Reference Resolver (section 4.4),
  which is missing. For the spec the resolver verifies that the returned document's
  declared type matches the taxon and wraps the result as a live document; a mismatch
  is a resolution-time error, not a silent coercion.
\<close>

definition verifyAndWrap ::
  "string \<Rightarrow> string \<Rightarrow> 'b RetrievedDoc \<Rightarrow> 'h \<Rightarrow> ReferenceError + ('b, 'h) LiveDocument" where
  "verifyAndWrap tx r d dh =
     (if doc_type d \<noteq> Some tx then Inl (TaxonMismatch tx (doc_type d))
      else Inr \<lparr>ld_refId = r, ld_doc = d, ld_docHandle = dh\<rparr>)"


text \<open>
  Modelled from the spec: \<^verbatim>\<open>enlivenModelDocument\<close> (imported from
  \<^verbatim>\<open>./model_document_editor\<close>), which is missing. The page has retrieved the
  document itself, so the function is the second half of the resolver, for a reference
  whose taxon is \<^verbatim>\<open>"model"\<close>.
\<close>

definition enlivenModelDocument ::
  "string \<Rightarrow> 'b RetrievedDoc \<Rightarrow> 'h \<Rightarrow> ReferenceError + ('b, 'h) LiveDocument" where
  "enlivenModelDocument r d dh = verifyAndWrap ''model'' r d dh"

text \<open>
  \<^verbatim>\<open>ModelAnalysisCellEditor\<close> (lines 141 to 148): the memo \<^verbatim>\<open>validatedModel\<close>
  tests the tag of the validation result and hands on its value or \<^verbatim>\<open>null\<close>.
  The type \<^verbatim>\<open>ValidationResult\<close> is declared in a missing module; the code reads
  its fields \<^verbatim>\<open>tag\<close> and \<^verbatim>\<open>value\<close>.
\<close>

record 'v ValidationResult =
  vr_tag :: string
  vr_value :: 'v

definition validatedModel :: "'v ValidationResult \<Rightarrow> 'v option" where
  "validatedModel res = (if vr_tag res = ''validated'' then Some (vr_value res) else None)"

section \<open>Simulation data (frontend, the Decapodes analysis)\<close>

text \<open>
  The source text is the last document of \<^verbatim>\<open>App.tsx\<close> (lines 465 to 775). A
  validated diagram is a diagram with the tag of its validation result
  (\<^verbatim>\<open>"Ok"\<close> or \<^verbatim>\<open>"Err"\<close>); of a live diagram the function reads the memo
  \<^verbatim>\<open>validatedDiagram()\<close>, which may be \<^verbatim>\<open>undefined\<close>, the object index and the
  formal judgments of the live model.
\<close>

record 'd ValidatedDiagram =
  diagram :: 'd
  result_tag :: string

record ('d, 'j) LiveDiagramDocument =
  validatedDiagram :: "'d ValidatedDiagram option"
  objectIndex :: "string \<rightharpoonup> string"
  formalJudgments :: "'j list"

text \<open>A JavaScript \<^verbatim>\<open>Record<string, T>\<close> is a list of entries in key order.\<close>

record 'n DecapodesContent =
  scalars :: "(string \<times> 'n) list"
  plotVariables :: "(string \<times> bool) list"

record ('dj, 'j, 'n) SimulationData =
  sd_diagram :: "'dj list"
  sd_model :: "'j list"
  sd_scalars :: "(string \<times> 'n) list"
  sd_plotVariables :: "string list"

text \<open>
  \<^verbatim>\<open>makeSimulationData\<close> (lines 759 to 775). \<^verbatim>\<open>fromCatlogDiagram\<close> of the
  missing module \<^verbatim>\<open>diagram\<close> is an argument.
\<close>

definition makeSimulationData ::
  "('d \<Rightarrow> (string \<rightharpoonup> string) \<Rightarrow> 'dj list) \<Rightarrow> ('d, 'j) LiveDiagramDocument
     \<Rightarrow> 'n DecapodesContent \<Rightarrow> ('dj, 'j, 'n) SimulationData option" where
  "makeSimulationData fromCatlogDiagram liveDiagram content =
     (case validatedDiagram liveDiagram of
        None \<Rightarrow> None
      | Some vd \<Rightarrow>
          if result_tag vd \<noteq> ''Ok'' then None
          else Some
            \<lparr>sd_diagram = fromCatlogDiagram (diagram vd) (\<lambda>i. objectIndex liveDiagram i),
             sd_model = formalJudgments liveDiagram,
             sd_scalars = scalars content,
             sd_plotVariables =
               filter (\<lambda>v. map_of (plotVariables content) v = Some True)
                 (map fst (plotVariables content))\<rparr>)"

section \<open>Routes (frontend, App.tsx)\<close>

text \<open>
  A route definition: its path pattern, its match filters (one predicate per named
  parameter) and the paths of its children. \<^verbatim>\<open>uuid.validate\<close> of the library
  \<^verbatim>\<open>uuid\<close> is the argument \<open>uuid_validate\<close>.
\<close>

record RouteDefinition =
  path :: string
  matchFilters :: "(string \<times> (string \<Rightarrow> bool)) list"
  children :: "string list"

definition refIsUUIDFilter :: "(string \<Rightarrow> bool) \<Rightarrow> (string \<times> (string \<Rightarrow> bool)) list" where
  "refIsUUIDFilter uuid_validate = [(''ref'', \<lambda>ref. uuid_validate ref)]"

definition routes :: "(string \<Rightarrow> bool) \<Rightarrow> RouteDefinition list" where
  "routes uuid_validate =
     [\<lparr>path = ''/'', matchFilters = [], children = []\<rparr>,
      \<lparr>path = ''/model/:ref'', matchFilters = refIsUUIDFilter uuid_validate, children = []\<rparr>,
      \<lparr>path = ''/analysis/:ref'', matchFilters = refIsUUIDFilter uuid_validate, children = []\<rparr>,
      \<lparr>path = ''/help'', matchFilters = [], children = [''/'', ''/credits'']\<rparr>]"

text \<open>
  The routes are matched by the router library \<^verbatim>\<open>@solidjs/router\<close>. Its contract
  for a pattern of static segments and named parameters is kept: pattern and location
  are cut at the slashes, empty pieces dropped; they must have the same number of
  segments; a static segment must equal the location's; a parameter \<^verbatim>\<open>:p\<close> takes
  the location's segment as its value, and where the route has a match filter for
  \<open>p\<close> the filter must accept that value. A match yields the parameters.
\<close>

fun splitOn :: "char \<Rightarrow> string \<Rightarrow> string list" where
  "splitOn c [] = [[]]"
| "splitOn c (x # xs) =
     (if x = c then [] # splitOn c xs
      else (case splitOn c xs of [] \<Rightarrow> [[x]] | s # ss \<Rightarrow> (x # s) # ss))"

definition segments :: "string \<Rightarrow> string list" where
  "segments p = filter (\<lambda>s. s \<noteq> []) (splitOn (CHR ''/'') p)"

fun matchSegments ::
  "(string \<times> (string \<Rightarrow> bool)) list \<Rightarrow> string list \<Rightarrow> string list
     \<Rightarrow> (string \<times> string) list option" where
  "matchSegments fs [] [] = Some []"
| "matchSegments fs ((c # key) # ps) (l # ls) =
     (if c = CHR '':'' then
        (case map_of fs key of
           Some f \<Rightarrow>
             if f l then map_option (\<lambda>m. (key, l) # m) (matchSegments fs ps ls) else None
         | None \<Rightarrow> map_option (\<lambda>m. (key, l) # m) (matchSegments fs ps ls))
      else if c # key = l then matchSegments fs ps ls
      else None)"
| "matchSegments fs ps ls = None"

definition matchRoute :: "RouteDefinition \<Rightarrow> string \<Rightarrow> (string \<times> string) list option" where
  "matchRoute r location = matchSegments (matchFilters r) (segments (path r)) (segments location)"

definition documentRoute :: "RouteDefinition \<Rightarrow> bool" where
  "documentRoute r = (path r = ''/model/:ref'' \<or> path r = ''/analysis/:ref'')"

section \<open>The Decapodes service (algjulia-service, decapodes.jl)\<close>

text \<open>
  A Julia \<^verbatim>\<open>String\<close> is a sequence of UTF-8 code units and a \<^verbatim>\<open>Symbol\<close> an
  interned string: both are byte strings here. The characters outside ASCII that the
  file writes are named below by their encodings.
\<close>

type_synonym Symbol = string

definition u_partial :: string where \<comment> \<open>U+2202 partial differential\<close>
  "u_partial = [CHR 0xE2, CHR 0x88, CHR 0x82]"

definition u_sub_t :: string where \<comment> \<open>U+209C latin subscript small letter t\<close>
  "u_sub_t = [CHR 0xE2, CHR 0x82, CHR 0x9C]"

definition u_Delta :: string where \<comment> \<open>U+0394 greek capital letter delta\<close>
  "u_Delta = [CHR 0xCE, CHR 0x94]"

definition u_sup_minus :: string where \<comment> \<open>U+207B superscript minus\<close>
  "u_sup_minus = [CHR 0xE2, CHR 0x81, CHR 0xBB]"

definition u_sup_one :: string where \<comment> \<open>U+00B9 superscript one\<close>
  "u_sup_one = [CHR 0xC2, CHR 0xB9]"

definition u_sub_zero :: string where \<comment> \<open>U+2080 subscript zero\<close>
  "u_sub_zero = [CHR 0xE2, CHR 0x82, CHR 0x80]"

definition u_sub_one :: string where \<comment> \<open>U+2081 subscript one\<close>
  "u_sub_one = [CHR 0xE2, CHR 0x82, CHR 0x81]"

definition u_sub_two :: string where \<comment> \<open>U+2082 subscript two\<close>
  "u_sub_two = [CHR 0xE2, CHR 0x82, CHR 0x82]"

definition u_comb_tilde :: string where \<comment> \<open>U+0303 combining tilde\<close>
  "u_comb_tilde = [CHR 0xCC, CHR 0x83]"

definition u_star :: string where \<comment> \<open>U+22C6 star operator\<close>
  "u_star = [CHR 0xE2, CHR 0x8B, CHR 0x86]"

definition u_bigstar :: string where \<comment> \<open>U+2605 black star\<close>
  "u_bigstar = [CHR 0xE2, CHR 0x98, CHR 0x85]"

definition u_flat :: string where \<comment> \<open>U+266D music flat sign\<close>
  "u_flat = [CHR 0xE2, CHR 0x99, CHR 0xAD]"

definition u_sharp :: string where \<comment> \<open>U+266F music sharp sign\<close>
  "u_sharp = [CHR 0xE2, CHR 0x99, CHR 0xAF]"

definition u_bullet :: string where \<comment> \<open>U+2022 bullet\<close>
  "u_bullet = [CHR 0xE2, CHR 0x80, CHR 0xA2]"

text \<open>
  A \<open>Cell\<close> is a judgment as a \<^verbatim>\<open>JSON3.Object\<close>: the keys \<^verbatim>\<open>tag\<close>
  (\<open>None\<close> when the key is missing), \<^verbatim>\<open>id\<close>, \<^verbatim>\<open>name\<close>, and the references
  \<^verbatim>\<open>over\<close>, \<^verbatim>\<open>dom\<close>, \<^verbatim>\<open>cod\<close>, each \<^verbatim>\<open>null\<close> (\<open>None\<close>) or an object
  whose \<^verbatim>\<open>content\<close> is the id referred to. A judgment has no key \<^verbatim>\<open>content\<close>.
\<close>

record Cell =
  j_tag :: "string option"
  j_id :: string
  j_name :: string
  j_over :: "string option"
  j_dom :: "string option"
  j_cod :: "string option"

text \<open>
  The exceptions: \<^verbatim>\<open>ImplError\<close> of the file with its \<^verbatim>\<open>name\<close>, and Julia's
  \<^verbatim>\<open>KeyError\<close> (a key that a dictionary or a JSON object lacks) and
  \<^verbatim>\<open>MethodError\<close> (here: indexing \<^verbatim>\<open>nothing\<close>, the value of a JSON \<^verbatim>\<open>null\<close>).
  Line 179 passes to \<^verbatim>\<open>ImplError\<close> the whole cell, not a string, which is
  \<open>ImplErrorOf\<close>: whether Julia can build that exception or raises another one
  while converting the cell, the call raises.
\<close>

datatype exn = ImplError string | ImplErrorOf Cell | KeyError string | MethodError string

text \<open>
  \<^verbatim>\<open>to_decapode_theory(::Val{:Ob}, name)\<close>; \<^verbatim>\<open>lowercase\<close> of Julia's Base, which
  follows Unicode, is the argument \<open>lowercase\<close>.
\<close>

definition to_decapode_theory_Ob :: "(string \<Rightarrow> string) \<Rightarrow> string \<Rightarrow> exn + Symbol" where
  "to_decapode_theory_Ob lowercase nm =
     (let x = lowercase nm in
      if x = ''0-form'' then Inr ''Form0''
      else if x = ''1-form'' then Inr ''Form1''
      else if x = ''2-form'' then Inr ''Form2''
      else if x = ''primal 0-form'' then Inr ''Form0''
      else if x = ''primal 1-form'' then Inr ''Form1''
      else if x = ''primal 2-form'' then Inr ''Form2''
      else if x = ''dual 0-form'' then Inr ''DualForm0''
      else if x = ''dual 1-form'' then Inr ''DualForm1''
      else if x = ''dual 2-form'' then Inr ''DualForm2''
      else Inl (ImplError x))"

text \<open>
  \<^verbatim>\<open>to_decapode_theory(::Val{:Hom}, name)\<close>; \<^verbatim>\<open>replace(name, " " => "")\<close> deletes
  every space.
\<close>

definition to_decapode_theory_Hom :: "string \<Rightarrow> exn + Symbol" where
  "to_decapode_theory_Hom nm =
     (let x = filter (\<lambda>c. c \<noteq> CHR '' '') nm in
      if x = u_partial @ ''t'' then Inr (u_partial @ u_sub_t)
      else if x = u_partial @ u_sub_t then Inr (u_partial @ u_sub_t)
      else if x = u_Delta then Inr (u_Delta)
      else if x = u_Delta @ u_sup_minus @ u_sup_one then Inr (u_Delta @ u_sup_minus @ u_sup_one)
      else if x = ''d'' then Inr (''d'' @ u_sub_zero)
      else if x = ''d*'' then Inr (''dual_d'' @ u_sub_one)
      else if x = ''d'' @ u_comb_tilde @ u_sub_one then Inr (''dual_d'' @ u_sub_one)
      else if x = u_star then Inr (u_star @ u_sub_one)
      else if x = u_star @ u_sup_minus @ u_sup_one then Inr (u_star @ u_sub_zero @ u_sup_minus @ u_sup_one)
      else if x = u_star @ u_sub_zero @ u_sup_minus @ u_sup_one then Inr (u_star @ u_sub_zero @ u_sup_minus @ u_sup_one)
      else if x = u_bigstar then Inr (u_star @ u_sub_one)
      else if x = u_bigstar @ u_sup_minus @ u_sup_one then Inr (u_star @ u_sub_zero @ u_sup_minus @ u_sup_one)
      else if x = ''diffusivity'' then Inr (''diffusivity'')
      else if x = ''d'' @ u_sub_zero then Inr (''d'' @ u_sub_zero)
      else if x = ''d12'' then Inr (''d'' @ u_sub_one)
      else if x = u_star @ ''1'' then Inr (u_star @ u_sub_one)
      else if x = u_star @ ''2'' then Inr (u_star @ u_sub_two)
      else if x = u_flat @ u_sharp then Inr (u_flat @ u_sharp)
      else if x = ''lamb'' then Inr (''dpsw'')
      else if x = ''-'' then Inr (''neg'')
      else Inl (ImplError x))"

text \<open>
  A \<^verbatim>\<open>TheoryElement\<close> is a name with, for a morphism, the ids of its domain and
  codomain (\<^verbatim>\<open>HomData\<close>); a \<^verbatim>\<open>Theory\<close> wraps a dictionary from ids to elements.
\<close>

record HomData =
  hd_dom :: string
  hd_cod :: string

record TheoryElement =
  te_name :: Symbol
  te_val :: "HomData option"

type_synonym Theory = "string \<rightharpoonup> TheoryElement"

text \<open>Reading \<^verbatim>\<open>ref[:content]\<close> of a reference that may be \<^verbatim>\<open>null\<close>.\<close>

definition content_of :: "string option \<Rightarrow> exn + string" where
  "content_of r = (case r of None \<Rightarrow> Inl (MethodError ''getindex'') | Some x \<Rightarrow> Inr x)"

text \<open>
  \<^verbatim>\<open>add_to_theory!\<close> for objects and for morphisms. The keyword arguments are
  evaluated from left to right: the name first, then \<open>dom\<close>, then \<open>cod\<close>.
\<close>

definition add_to_theory_Ob :: "(string \<Rightarrow> string) \<Rightarrow> Theory \<Rightarrow> Cell \<Rightarrow> exn + Theory" where
  "add_to_theory_Ob lowercase theory content =
     (case to_decapode_theory_Ob lowercase (j_name content) of
        Inl e \<Rightarrow> Inl e
      | Inr n \<Rightarrow> Inr (theory(j_id content \<mapsto> \<lparr>te_name = n, te_val = None\<rparr>)))"

definition add_to_theory_Hom :: "Theory \<Rightarrow> Cell \<Rightarrow> exn + Theory" where
  "add_to_theory_Hom theory content =
     (case to_decapode_theory_Hom (j_name content) of
        Inl e \<Rightarrow> Inl e
      | Inr n \<Rightarrow>
          (case content_of (j_dom content) of
             Inl e \<Rightarrow> Inl e
           | Inr d \<Rightarrow>
               (case content_of (j_cod content) of
                  Inl e \<Rightarrow> Inl e
                | Inr c \<Rightarrow>
                    Inr (theory(j_id content \<mapsto>
                           \<lparr>te_name = n, te_val = Some \<lparr>hd_dom = d, hd_cod = c\<rparr>\<rparr>)))))"

text \<open>
  The body of the loop of \<^verbatim>\<open>Theory(model)\<close> (lines 173 to 183): the active
  patterns \<^verbatim>\<open>IsObject\<close> and \<^verbatim>\<open>IsMorphism\<close> read \<^verbatim>\<open>x[:tag]\<close>, and the last
  branch throws.
\<close>

definition theory_step :: "(string \<Rightarrow> string) \<Rightarrow> Theory \<Rightarrow> Cell \<Rightarrow> exn + Theory" where
  "theory_step lowercase theory cell =
     (case j_tag cell of
        None \<Rightarrow> Inl (KeyError ''tag'')
      | Some t \<Rightarrow>
          if t = ''object'' then add_to_theory_Ob lowercase theory cell
          else if t = ''morphism'' then add_to_theory_Hom theory cell
          else Inl (ImplErrorOf cell))"

fun theory_loop :: "(string \<Rightarrow> string) \<Rightarrow> Theory \<Rightarrow> Cell list \<Rightarrow> exn + Theory" where
  "theory_loop lowercase theory [] = Inr theory"
| "theory_loop lowercase theory (cell # cs) =
     (case theory_step lowercase theory cell of
        Inl e \<Rightarrow> Inl e
      | Inr theory' \<Rightarrow> theory_loop lowercase theory' cs)"

definition Theory :: "(string \<Rightarrow> string) \<Rightarrow> Cell list \<Rightarrow> exn + Theory" where
  "Theory lowercase cs = theory_loop lowercase Map.empty cs"

text \<open>
  Of a \<^verbatim>\<open>SummationDecapode\<close> the tables that the file fills: the variables with
  name and type, the unary operators with source, target and name, and the time
  variables. \<^verbatim>\<open>add_part!\<close> appends a row and returns its number, counted from 1.
\<close>

record Var_row =
  var_name :: Symbol
  var_type :: Symbol

record Op1_row =
  src :: nat
  tgt :: nat
  op1 :: Symbol

record SummationDecapode =
  Var :: "Var_row list"
  TVar :: "nat list"
  Op1 :: "Op1_row list"

text \<open>
  Decimal notation, as string interpolation prints an \<^verbatim>\<open>Int\<close>. The counter of
  anonymous variables \<^verbatim>\<open>nc[1]\<close> is an \<^verbatim>\<open>Int\<close> of 64 bits, whose addition wraps.
\<close>

definition digit :: "nat \<Rightarrow> char" where
  "digit d = char_of (d + 48)"

fun decimal :: "nat \<Rightarrow> string" where
  "decimal n = (if 10 \<le> n then decimal (n div 10) @ [digit (n mod 10)] else [digit n])"

declare decimal.simps [simp del]

definition interpolate :: "int \<Rightarrow> string" where
  "interpolate i = (if 0 \<le> i then decimal (nat i) else CHR ''-'' # decimal (nat (- i)))"

type_synonym Int64 = "64 word"

text \<open>The state that the loop of \<^verbatim>\<open>Decapode\<close> updates in place.\<close>

record 'n pode_state =
  pode :: SummationDecapode
  vars :: "string \<rightharpoonup> nat"
  nc :: Int64
  anons :: "Symbol \<rightharpoonup> 'n"

text \<open>
  \<^verbatim>\<open>add_to_pode!\<close> for an object (lines 191 to 210). A closure
  \<^verbatim>\<open>x -> scalar * x\<close> in \<^verbatim>\<open>anons\<close> is given by its scalar.
\<close>

definition add_to_pode_Ob :: "Theory \<Rightarrow> 'n pode_state \<Rightarrow> Cell \<Rightarrow> exn + 'n pode_state" where
  "add_to_pode_Ob theory s content =
     (case content_of (j_over content) of
        Inl e \<Rightarrow> Inl e
      | Inr ov \<Rightarrow>
          (case theory ov of
             None \<Rightarrow> Inl (KeyError ov)
           | Some theory_elem \<Rightarrow>
               (let nc' = (if j_name content = [] then nc s + 1 else nc s);
                    nm = (if j_name content = [] then u_bullet @ interpolate (sint nc')
                          else j_name content);
                    d = pode s;
                    d' = d\<lparr>Var := Var d @ [\<lparr>var_name = nm, var_type = te_name theory_elem\<rparr>]\<rparr>;
                    i = length (Var d')
                in Inr (s\<lparr>pode := d', vars := (vars s)(j_id content \<mapsto> i), nc := nc'\<rparr>))))"

text \<open>\<^verbatim>\<open>nameof(theory, content)\<close> (lines 212 to 214).\<close>

definition nameof :: "Theory \<Rightarrow> Cell \<Rightarrow> exn + Symbol" where
  "nameof theory content =
     (case content_of (j_over content) of
        Inl e \<Rightarrow> Inl e
      | Inr ov \<Rightarrow> (case theory ov of None \<Rightarrow> Inl (KeyError ov) | Some el \<Rightarrow> Inr (te_name el)))"

text \<open>
  \<^verbatim>\<open>add_to_pode!\<close> for a morphism (lines 217 to 244). The operator is added under
  the guard \<^verbatim>\<open>haskey(vars, dom) && haskey(vars, cod)\<close>, which has no
  \<^verbatim>\<open>else\<close>; the decapode is returned either way. The scalars are the entries of a
  JSON object or, by default, an empty array.
\<close>

definition add_to_pode_Hom ::
  "Theory \<Rightarrow> (string \<times> 'n) list \<Rightarrow> 'n pode_state \<Rightarrow> Cell \<Rightarrow> exn + 'n pode_state" where
  "add_to_pode_Hom theory scs s content =
     (case content_of (j_dom content) of
        Inl e \<Rightarrow> Inl e
      | Inr d \<Rightarrow>
          (case content_of (j_cod content) of
             Inl e \<Rightarrow> Inl e
           | Inr c \<Rightarrow>
               (case (vars s d, vars s c) of
                  (Some vd, Some vc) \<Rightarrow>
                    (case nameof theory content of
                       Inl e \<Rightarrow> Inl e
                     | Inr op \<Rightarrow>
                         (let d0 = pode s;
                              d1 = d0\<lparr>Op1 := Op1 d0 @ [\<lparr>src = vd, tgt = vc, op1 = op\<rparr>]\<rparr>;
                              d2 = (if op = u_partial @ u_sub_t
                                    then d1\<lparr>TVar := TVar d1 @ [vc]\<rparr> else d1)
                          in if scs = [] then Inr (s\<lparr>pode := d2\<rparr>)
                             else
                               (case content_of (j_over content) of
                                  Inl e \<Rightarrow> Inl e
                                | Inr ov \<Rightarrow>
                                    (case map_of scs ov of
                                       None \<Rightarrow> Inr (s\<lparr>pode := d2\<rparr>)
                                     | Some scalar \<Rightarrow>
                                         Inr (s\<lparr>pode := d2,
                                                anons := (anons s)(op \<mapsto> scalar)\<rparr>)))))
                | _ \<Rightarrow> Inr s)))"

text \<open>
  \<^verbatim>\<open>Decapode(diagram, theory; scalars)\<close> (lines 250 to 266): the loop over the cells
  of the diagram. In the last branch \<^verbatim>\<open>cell[:content]\<close> is read of a judgment,
  which has no such key.
\<close>

definition pode_step ::
  "Theory \<Rightarrow> (string \<times> 'n) list \<Rightarrow> 'n pode_state \<Rightarrow> Cell \<Rightarrow> exn + 'n pode_state" where
  "pode_step theory scs s cell =
     (case j_tag cell of
        None \<Rightarrow> Inl (KeyError ''tag'')
      | Some t \<Rightarrow>
          if t = ''object'' then add_to_pode_Ob theory s cell
          else if t = ''morphism'' then add_to_pode_Hom theory scs s cell
          else Inl (KeyError ''content''))"

fun pode_loop ::
  "Theory \<Rightarrow> (string \<times> 'n) list \<Rightarrow> 'n pode_state \<Rightarrow> Cell list \<Rightarrow> exn + 'n pode_state" where
  "pode_loop theory scs s [] = Inr s"
| "pode_loop theory scs s (cell # cs) =
     (case pode_step theory scs s cell of
        Inl e \<Rightarrow> Inl e
      | Inr s' \<Rightarrow> pode_loop theory scs s' cs)"

definition Decapode ::
  "Cell list \<Rightarrow> Theory \<Rightarrow> (string \<times> 'n) list
     \<Rightarrow> exn + (SummationDecapode \<times> (Symbol \<rightharpoonup> 'n) \<times> (string \<rightharpoonup> nat))" where
  "Decapode cs theory scs =
     (case pode_loop theory scs
             \<lparr>pode = \<lparr>Var = [], TVar = [], Op1 = []\<rparr>, vars = Map.empty, nc = 0,
              anons = Map.empty\<rparr> cs of
        Inl e \<Rightarrow> Inl e
      | Inr s \<Rightarrow> Inr (pode s, anons s, vars s))"

text \<open>
  For the statements about the names of variables: the object judgments of a diagram,
  the number of anonymous ones (those with an empty name) in a list of judgments, the
  names that \<^verbatim>\<open>add_to_pode!\<close> gives to a list of object judgments when the counter
  stands at \<open>n\<close>, and the number that a decimal numeral denotes.
\<close>

definition object_cells :: "Cell list \<Rightarrow> Cell list" where
  "object_cells cs = filter (\<lambda>c. j_tag c = Some ''object'') cs"

definition anon_count :: "Cell list \<Rightarrow> nat" where
  "anon_count cs = length (filter (\<lambda>c. j_name c = []) cs)"

fun var_names :: "Int64 \<Rightarrow> Cell list \<Rightarrow> Symbol list" where
  "var_names n [] = []"
| "var_names n (c # cs) =
     (if j_name c = [] then (u_bullet @ interpolate (sint (n + 1))) # var_names (n + 1) cs
      else j_name c # var_names n cs)"

definition decimal_value :: "string \<Rightarrow> nat" where
  "decimal_value s = foldl (\<lambda>a c. 10 * a + (of_char c - 48)) 0 s"

section \<open>Properties\<close>

subsection \<open>What the loop of \<open>catlogModel\<close> builds\<close>

lemma add_judgment_at:
  "a < length h \<Longrightarrow> add_judgment cls a h j = h[a := add_pure cls (h ! a) j]"
  by (cases j) simp_all

lemma foldl_add_judgment:
  "a < length h \<Longrightarrow>
   foldl (add_judgment cls a) h js = h[a := foldl (add_pure cls) (h ! a) js]"
proof (induction js arbitrary: h)
  case Nil
  then show ?case by simp
next
  case (Cons j js)
  then show ?case by (simp add: add_judgment_at)
qed

lemma catlogModel_eq:
  "catlogModel cls h t js = (length h, h @ [foldl (add_pure cls) (construct cls t) js])"
  by (simp add: catlogModel_def new_DblModel_def foldl_add_judgment)

text \<open>
  On a theory of the supported kind, \<open>validateModel\<close> allocates one model, adds the
  declarations to it in sequence order and validates it.
\<close>

lemma validateModel_supported:
  "kind t = ''Discrete'' \<Longrightarrow>
   validateModel cls h t js =
     (let m = foldl (add_pure cls) (construct cls t) js
      in (Some \<lparr>model = length h, result = validate cls m\<rparr>, h @ [m]))"
  by (simp add: validateModel_def catlogModel_eq Let_def)

lemma DblModel_spec_sel:
  "construct DblModel_spec t = \<lparr>the_theory = t, obs = [], mors = []\<rparr>"
  "addOb DblModel_spec m ob = m\<lparr>obs := obs m @ [ob]\<rparr>"
  "addMor DblModel_spec m mor = m\<lparr>mors := mors m @ [mor]\<rparr>"
  "validate DblModel_spec = validate_spec"
  by (simp_all add: DblModel_spec_def)

lemma foldl_add_pure_spec:
  "foldl (add_pure DblModel_spec) m js =
     m\<lparr>obs := obs m @ declared_obs js, mors := mors m @ declared_mors js\<rparr>"
proof (induction js arbitrary: m)
  case Nil
  then show ?case by simp
next
  case (Cons j js)
  show ?case by (cases j) (simp_all add: Cons.IH DblModel_spec_sel)
qed

lemma built_model:
  "foldl (add_pure DblModel_spec) \<lparr>the_theory = t, obs = [], mors = []\<rparr> js =
     \<lparr>the_theory = t, obs = declared_obs js, mors = declared_mors js\<rparr>"
  by (simp add: foldl_add_pure_spec)

subsection \<open>Unsupported kinds of theory\<close>

text \<open>
  C2. For every theory whose kind is not \<^verbatim>\<open>"Discrete"\<close> and every list of judgments,
  empty or not, \<open>validateModel\<close> returns \<^verbatim>\<open>undefined\<close>, which is \<open>None\<close>, and
  neither an \<open>Ok\<close> nor an \<open>Err\<close> result; no model is created on the way.
\<close>

theorem validateModel_unsupported_kind:
  "kind t \<noteq> ''Discrete'' \<Longrightarrow> validateModel cls h t js = (None, h)"
  by (simp add: validateModel_def)

theorem validateModel_unsupported_kind_witness:
  "kind \<lparr>kind = ''Modal''\<rparr> \<noteq> ''Discrete'' \<and>
   validateModel DblModel_spec [] \<lparr>kind = ''Modal''\<rparr>
     [Object \<lparr>ob_id = ''1'', ob_name = ''x'', obType = ObBasic ''X''\<rparr>,
      Morphism \<lparr>mor_id = ''2'', mor_name = ''f'', morType = Hom (ObBasic ''X''),
                dom = Some ''1'', cod = Some ''99''\<rparr>] = (None, [])"
proof -
  have k: "kind \<lparr>kind = ''Modal''\<rparr> \<noteq> ''Discrete''" by simp
  show ?thesis using k validateModel_unsupported_kind [OF k] by simp
qed

subsection \<open>Well-scoped judgment sequences are valid\<close>

lemma resolves_mono: "resolves seen r \<Longrightarrow> set seen \<subseteq> set seen' \<Longrightarrow> resolves seen' r"
  by (auto simp: resolves_def split: option.splits)

lemma well_scoped_resolves:
  "well_scoped seen js \<Longrightarrow> m \<in> set (declared_mors js) \<Longrightarrow>
   resolves (seen @ map ob_id (declared_obs js)) (dom m) \<and>
   resolves (seen @ map ob_id (declared_obs js)) (cod m)"
proof (induction seen js rule: well_scoped.induct)
  case (1 seen)
  then show ?case by simp
next
  case (2 seen d js)
  then have "resolves ((ob_id d # seen) @ map ob_id (declared_obs js)) (dom m) \<and>
             resolves ((ob_id d # seen) @ map ob_id (declared_obs js)) (cod m)"
    by simp
  then show ?case by (auto elim!: resolves_mono)
next
  case (3 seen d js)
  then show ?case by (auto elim!: resolves_mono)
next
  case (4 seen t js)
  then show ?case by simp
qed

lemma resolves_not_dangling: "resolves (map ob_id os) r \<Longrightarrow> \<not> dangling os r"
  by (auto simp: resolves_def dangling_def split: option.splits)

lemma well_scoped_no_errors:
  assumes "well_scoped [] js"
  shows "concat (map (morphism_errors (declared_obs js)) (declared_mors js)) = []"
proof -
  have "morphism_errors (declared_obs js) m = []" if "m \<in> set (declared_mors js)" for m
    using well_scoped_resolves [OF assms that]
    by (simp add: morphism_errors_def resolves_not_dangling)
  then show ?thesis by simp
qed

text \<open>
  C3. On a theory of the supported kind, for every judgment sequence in which every
  morphism's \<open>dom\<close> and \<open>cod\<close> resolve to an object declared earlier in the
  sequence, validation returns \<open>Ok\<close>, and the model it built, the newest object of
  the store, contains exactly the declared objects and exactly the declared morphisms,
  each list in the order of the sequence. The validation of the model is the one
  modelled from the spec.
\<close>

theorem validate_well_scoped_Ok:
  assumes "kind t = ''Discrete''" and "well_scoped [] js"
  shows "validateModel DblModel_spec h t js =
           (Some \<lparr>model = length h,
                   result = Ok \<lparr>the_theory = t, obs = declared_obs js,
                                mors = declared_mors js\<rparr>\<rparr>,
            h @ [\<lparr>the_theory = t, obs = declared_obs js, mors = declared_mors js\<rparr>])"
  using assms well_scoped_no_errors [of js]
  by (simp add: validateModel_supported built_model validate_spec_def Let_def
      DblModel_spec_sel del: concat_eq_Nil_conv)

theorem validate_well_scoped_Ok_witness:
  "kind \<lparr>kind = ''Discrete''\<rparr> = ''Discrete'' \<and>
   well_scoped []
     [Object \<lparr>ob_id = ''1'', ob_name = ''x'', obType = ObBasic ''X''\<rparr>,
      Morphism \<lparr>mor_id = ''2'', mor_name = ''f'', morType = Hom (ObBasic ''X''),
                dom = Some ''1'', cod = Some ''1''\<rparr>] \<and>
   validateModel DblModel_spec [] \<lparr>kind = ''Discrete''\<rparr>
     [Object \<lparr>ob_id = ''1'', ob_name = ''x'', obType = ObBasic ''X''\<rparr>,
      Morphism \<lparr>mor_id = ''2'', mor_name = ''f'', morType = Hom (ObBasic ''X''),
                dom = Some ''1'', cod = Some ''1''\<rparr>] =
     (Some \<lparr>model = 0,
             result = Ok \<lparr>the_theory = \<lparr>kind = ''Discrete''\<rparr>,
                 obs = [\<lparr>ob_id = ''1'', ob_name = ''x'', obType = ObBasic ''X''\<rparr>],
                 mors = [\<lparr>mor_id = ''2'', mor_name = ''f'', morType = Hom (ObBasic ''X''),
                          dom = Some ''1'', cod = Some ''1''\<rparr>]\<rparr>\<rparr>,
      [\<lparr>the_theory = \<lparr>kind = ''Discrete''\<rparr>,
        obs = [\<lparr>ob_id = ''1'', ob_name = ''x'', obType = ObBasic ''X''\<rparr>],
        mors = [\<lparr>mor_id = ''2'', mor_name = ''f'', morType = Hom (ObBasic ''X''),
                 dom = Some ''1'', cod = Some ''1''\<rparr>]\<rparr>])"
proof -
  have k: "kind \<lparr>kind = ''Discrete''\<rparr> = ''Discrete''" by simp
  have w: "well_scoped []
     [Object \<lparr>ob_id = ''1'', ob_name = ''x'', obType = ObBasic ''X''\<rparr>,
      Morphism \<lparr>mor_id = ''2'', mor_name = ''f'', morType = Hom (ObBasic ''X''),
                dom = Some ''1'', cod = Some ''1''\<rparr>]"
    by (simp add: resolves_def)
  show ?thesis using k w validate_well_scoped_Ok [OF k w, of "[]"] by simp
qed

subsection \<open>Validating twice\<close>

text \<open>
  C7. For every theory and every judgment sequence, validating twice in a row, the
  sequence unchanged, gives structurally identical results: the second call builds a
  model of its own, and what it returns, the contents of that model and the result,
  equals what the first call returned; the model of the first call is left as it was.
  The validation proper is any function of the contents of the model.
\<close>

theorem validateModel_twice:
  assumes "validateModel cls h t js = (r1, h1)"
    and "validateModel cls h1 t js = (r2, h2)"
  shows "observed h2 r2 = observed h1 r1 \<and> observed h2 r1 = observed h1 r1"
proof (cases "kind t = ''Discrete''")
  case True
  with assms show ?thesis
    by (auto simp: validateModel_supported observed_def Let_def nth_append)
next
  case False
  with assms show ?thesis
    by (auto simp: validateModel_def observed_def)
qed

theorem validateModel_twice_witness:
  "validateModel DblModel_spec [] \<lparr>kind = ''Discrete''\<rparr>
     [Morphism \<lparr>mor_id = ''2'', mor_name = ''f'', morType = Hom (ObBasic ''X''),
                dom = None, cod = Some ''99''\<rparr>] =
     (Some \<lparr>model = 0, result = Err [\<lparr>inv_judgment = ''2'', inv_kind = ''dangling-cod''\<rparr>]\<rparr>,
      [\<lparr>the_theory = \<lparr>kind = ''Discrete''\<rparr>, obs = [],
        mors = [\<lparr>mor_id = ''2'', mor_name = ''f'', morType = Hom (ObBasic ''X''),
                 dom = None, cod = Some ''99''\<rparr>]\<rparr>]) \<and>
   validateModel DblModel_spec
      [\<lparr>the_theory = \<lparr>kind = ''Discrete''\<rparr>, obs = [],
        mors = [\<lparr>mor_id = ''2'', mor_name = ''f'', morType = Hom (ObBasic ''X''),
                 dom = None, cod = Some ''99''\<rparr>]\<rparr>]
      \<lparr>kind = ''Discrete''\<rparr>
     [Morphism \<lparr>mor_id = ''2'', mor_name = ''f'', morType = Hom (ObBasic ''X''),
                dom = None, cod = Some ''99''\<rparr>] =
     (Some \<lparr>model = 1, result = Err [\<lparr>inv_judgment = ''2'', inv_kind = ''dangling-cod''\<rparr>]\<rparr>,
      [\<lparr>the_theory = \<lparr>kind = ''Discrete''\<rparr>, obs = [],
        mors = [\<lparr>mor_id = ''2'', mor_name = ''f'', morType = Hom (ObBasic ''X''),
                 dom = None, cod = Some ''99''\<rparr>]\<rparr>,
       \<lparr>the_theory = \<lparr>kind = ''Discrete''\<rparr>, obs = [],
        mors = [\<lparr>mor_id = ''2'', mor_name = ''f'', morType = Hom (ObBasic ''X''),
                 dom = None, cod = Some ''99''\<rparr>]\<rparr>]) \<and>
   observed
      [\<lparr>the_theory = \<lparr>kind = ''Discrete''\<rparr>, obs = [],
        mors = [\<lparr>mor_id = ''2'', mor_name = ''f'', morType = Hom (ObBasic ''X''),
                 dom = None, cod = Some ''99''\<rparr>]\<rparr>,
       \<lparr>the_theory = \<lparr>kind = ''Discrete''\<rparr>, obs = [],
        mors = [\<lparr>mor_id = ''2'', mor_name = ''f'', morType = Hom (ObBasic ''X''),
                 dom = None, cod = Some ''99''\<rparr>]\<rparr>]
      (Some \<lparr>model = 1, result = Err [\<lparr>inv_judgment = ''2'', inv_kind = ''dangling-cod''\<rparr>]\<rparr>) =
   observed
      [\<lparr>the_theory = \<lparr>kind = ''Discrete''\<rparr>, obs = [],
        mors = [\<lparr>mor_id = ''2'', mor_name = ''f'', morType = Hom (ObBasic ''X''),
                 dom = None, cod = Some ''99''\<rparr>]\<rparr>]
      (Some \<lparr>model = 0, result = Err [\<lparr>inv_judgment = ''2'', inv_kind = ''dangling-cod''\<rparr>]\<rparr>)"
proof -
  let ?t = "\<lparr>kind = ''Discrete''\<rparr>"
  let ?js = "[Morphism \<lparr>mor_id = ''2'', mor_name = ''f'', morType = Hom (ObBasic ''X''),
                dom = None, cod = Some ''99''\<rparr>]"
  let ?m = "\<lparr>the_theory = ?t, obs = [],
        mors = [\<lparr>mor_id = ''2'', mor_name = ''f'', morType = Hom (ObBasic ''X''),
                 dom = None, cod = Some ''99''\<rparr>]\<rparr>"
  let ?e = "Err [\<lparr>inv_judgment = ''2'', inv_kind = ''dangling-cod''\<rparr>]"
  have a: "validateModel DblModel_spec [] ?t ?js = (Some \<lparr>model = 0, result = ?e\<rparr>, [?m])"
    by (simp add: validateModel_supported built_model validate_spec_def morphism_errors_def
        dangling_def Let_def DblModel_spec_sel)
  have b: "validateModel DblModel_spec [?m] ?t ?js = (Some \<lparr>model = 1, result = ?e\<rparr>, [?m, ?m])"
    by (simp add: validateModel_supported built_model validate_spec_def morphism_errors_def
        dangling_def Let_def DblModel_spec_sel)
  show ?thesis using a b validateModel_twice [OF a b] by simp
qed

subsection \<open>New analysis documents\<close>

text \<open>
  C8. For every ref id \<open>r\<close> of a model, \<open>newAnalysisDocument r\<close> is a document of type
  \<^verbatim>\<open>"analysis"\<close> with an empty notebook, the empty name, and the model reference
  \<^verbatim>\<open>{tag: "extern-ref", refId: r, taxon: "model"}\<close>: the fields of the declared type
  \<^verbatim>\<open>AnalysisDocument\<close>.
\<close>

theorem analysis_document_shape:
  "type (newAnalysisDocument r) = ''analysis'' \<and>
   cells (notebook (newAnalysisDocument r)) = [] \<and>
   name (newAnalysisDocument r) = [] \<and>
   modelRef (newAnalysisDocument r) =
     \<lparr>ref_tag = ''extern-ref'', refId = r, taxon = ''model''\<rparr>"
  by (simp add: newAnalysisDocument_def newNotebook_def)

subsection \<open>Invalid models and diagrams are not analysed\<close>

text \<open>
  C5. A dependent computation short-circuits when the validation it depends on did not
  succeed. For an analysis of a model: whenever the validation result of the model is
  not tagged \<^verbatim>\<open>"validated"\<close>, the memo \<open>validatedModel\<close> that the analysis cell
  receives is \<^verbatim>\<open>null\<close>. For the simulation of a diagram: whenever the validated
  diagram is missing or its result is not \<^verbatim>\<open>"Ok"\<close>, and so whenever it is
  \<^verbatim>\<open>"Err"\<close>, \<open>makeSimulationData\<close> returns \<^verbatim>\<open>undefined\<close> and no simulation
  data.
\<close>

theorem invalid_short_circuits:
  "(vr_tag res \<noteq> ''validated'' \<longrightarrow> validatedModel res = None) \<and>
   ((validatedDiagram liveDiagram = None \<or>
     (\<exists>vd. validatedDiagram liveDiagram = Some vd \<and> result_tag vd \<noteq> ''Ok'')) \<longrightarrow>
    makeSimulationData fromCatlogDiagram liveDiagram content = None)"
  by (auto simp: validatedModel_def makeSimulationData_def)

theorem invalid_short_circuits_witness:
  "vr_tag \<lparr>vr_tag = ''errors'', vr_value = ()\<rparr> \<noteq> ''validated'' \<and>
   validatedModel \<lparr>vr_tag = ''errors'', vr_value = ()\<rparr> = None \<and>
   validatedDiagram
     \<lparr>validatedDiagram = Some \<lparr>diagram = (), result_tag = ''Err''\<rparr>,
      objectIndex = Map.empty, formalJudgments = [()]\<rparr> =
     Some \<lparr>diagram = (), result_tag = ''Err''\<rparr> \<and>
   result_tag \<lparr>diagram = (), result_tag = ''Err''\<rparr> \<noteq> ''Ok'' \<and>
   makeSimulationData (\<lambda>d ix. [()])
     \<lparr>validatedDiagram = Some \<lparr>diagram = (), result_tag = ''Err''\<rparr>,
      objectIndex = Map.empty, formalJudgments = [()]\<rparr>
     \<lparr>scalars = [(''k'', 1 :: int)], plotVariables = [(''a'', True)]\<rparr> = None"
  using invalid_short_circuits
    [of "\<lparr>vr_tag = ''errors'', vr_value = ()\<rparr>"
        "\<lparr>validatedDiagram = Some \<lparr>diagram = (), result_tag = ''Err''\<rparr>,
          objectIndex = Map.empty, formalJudgments = [()]\<rparr>"
        "\<lambda>d ix. [()]"
        "\<lparr>scalars = [(''k'', 1 :: int)], plotVariables = [(''a'', True)]\<rparr>"]
  by simp

subsection \<open>Document routes\<close>

text \<open>
  C9. A document route, \<^verbatim>\<open>/model/:ref\<close> or \<^verbatim>\<open>/analysis/:ref\<close>, matches a
  location only when the value that the location gives to the parameter \<open>ref\<close> passes
  \<^verbatim>\<open>uuid.validate\<close>: every match of such a route binds exactly \<open>ref\<close>, to a valid
  UUID, so a ref that is not a valid UUID matches neither route.
\<close>

theorem document_routes_need_uuid:
  assumes "r \<in> set (routes uuid_validate)" and "documentRoute r"
    and "matchRoute r location = Some params"
  shows "\<exists>s. params = [(''ref'', s)] \<and> uuid_validate s"
proof -
  from assms(1,2) have r: "segments (path r) = [''model'', '':ref''] \<or> segments (path r) = [''analysis'', '':ref'']"
    and f: "matchFilters r = refIsUUIDFilter uuid_validate"
    by (auto simp: routes_def documentRoute_def segments_def)
  obtain ls where ls: "segments location = ls" by simp
  from r show ?thesis
  proof
    assume p: "segments (path r) = [''model'', '':ref'']"
    with assms(3) f ls show ?thesis
      by (cases ls; cases "tl ls"; cases "tl (tl ls)")
         (auto simp: matchRoute_def refIsUUIDFilter_def split: if_splits)
  next
    assume p: "segments (path r) = [''analysis'', '':ref'']"
    with assms(3) f ls show ?thesis
      by (cases ls; cases "tl ls"; cases "tl (tl ls)")
         (auto simp: matchRoute_def refIsUUIDFilter_def split: if_splits)
  qed
qed

theorem document_routes_need_uuid_witness:
  "\<lparr>path = ''/model/:ref'',
    matchFilters = refIsUUIDFilter (\<lambda>s. length s = 36 \<and> s ! 8 = CHR ''-''),
    children = []\<rparr> \<in> set (routes (\<lambda>s. length s = 36 \<and> s ! 8 = CHR ''-'')) \<and>
   documentRoute
     \<lparr>path = ''/model/:ref'',
      matchFilters = refIsUUIDFilter (\<lambda>s. length s = 36 \<and> s ! 8 = CHR ''-''),
      children = []\<rparr> \<and>
   matchRoute
     \<lparr>path = ''/model/:ref'',
      matchFilters = refIsUUIDFilter (\<lambda>s. length s = 36 \<and> s ! 8 = CHR ''-''),
      children = []\<rparr>
     ''/model/0192a5c3-7d1e-7000-8000-0123456789ab'' =
     Some [(''ref'', ''0192a5c3-7d1e-7000-8000-0123456789ab'')] \<and>
   (\<exists>s. [(''ref'', ''0192a5c3-7d1e-7000-8000-0123456789ab'')] = [(''ref'', s)] \<and>
        length s = 36 \<and> s ! 8 = CHR ''-'')"
proof -
  let ?v = "\<lambda>s. length s = 36 \<and> s ! 8 = CHR ''-''"
  let ?r = "\<lparr>path = ''/model/:ref'', matchFilters = refIsUUIDFilter ?v, children = []\<rparr>"
  have a: "?r \<in> set (routes ?v)" by (simp add: routes_def)
  have b: "documentRoute ?r" by (simp add: documentRoute_def)
  have c: "matchRoute ?r ''/model/0192a5c3-7d1e-7000-8000-0123456789ab'' =
             Some [(''ref'', ''0192a5c3-7d1e-7000-8000-0123456789ab'')]"
    by (simp add: matchRoute_def segments_def refIsUUIDFilter_def)
  show ?thesis using a b c document_routes_need_uuid [OF a b c] by simp
qed

text \<open>A ref that is no UUID, on the analysis route.\<close>

lemma non_uuid_matches_no_document_route:
  "matchRoute
     \<lparr>path = ''/analysis/:ref'',
      matchFilters = refIsUUIDFilter (\<lambda>s. length s = 36 \<and> s ! 8 = CHR ''-''),
      children = []\<rparr>
     ''/analysis/not-a-uuid'' = None"
  by (simp add: matchRoute_def segments_def refIsUUIDFilter_def)

subsection \<open>Unrecognized discriminators\<close>

lemmas unicode_defs =
  u_partial_def u_sub_t_def u_Delta_def u_sup_minus_def u_sup_one_def u_sub_zero_def
  u_sub_one_def u_sub_two_def u_comb_tilde_def u_star_def u_bigstar_def u_flat_def
  u_sharp_def u_bullet_def

lemma theory_step_unrecognized:
  "j_tag cell \<noteq> Some ''object'' \<Longrightarrow> j_tag cell \<noteq> Some ''morphism'' \<Longrightarrow>
   \<exists>e. theory_step lowercase th cell = Inl e"
  by (cases "j_tag cell") (simp_all add: theory_step_def)

lemma theory_loop_unrecognized:
  "cell \<in> set cs \<Longrightarrow> j_tag cell \<noteq> Some ''object'' \<Longrightarrow> j_tag cell \<noteq> Some ''morphism'' \<Longrightarrow>
   \<exists>e. theory_loop lowercase th cs = Inl e"
proof (induction cs arbitrary: th)
  case Nil
  then show ?case by simp
next
  case (Cons c cs)
  show ?case
  proof (cases "theory_step lowercase th c")
    case (Inl e)
    then show ?thesis by simp
  next
    case (Inr th')
    with theory_step_unrecognized [of c lowercase th] Cons.prems
    have "cell \<in> set cs" by auto
    with Cons.IH [of th'] Cons.prems Inr show ?thesis by simp
  qed
qed

lemma pode_step_unrecognized:
  "j_tag cell \<noteq> Some ''object'' \<Longrightarrow> j_tag cell \<noteq> Some ''morphism'' \<Longrightarrow>
   \<exists>e. pode_step th scs s cell = Inl e"
  by (cases "j_tag cell") (simp_all add: pode_step_def)

lemma pode_loop_unrecognized:
  "cell \<in> set cs \<Longrightarrow> j_tag cell \<noteq> Some ''object'' \<Longrightarrow> j_tag cell \<noteq> Some ''morphism'' \<Longrightarrow>
   \<exists>e. pode_loop th scs s cs = Inl e"
proof (induction cs arbitrary: s)
  case Nil
  then show ?case by simp
next
  case (Cons c cs)
  show ?case
  proof (cases "pode_step th scs s c")
    case (Inl e)
    then show ?thesis by simp
  next
    case (Inr s')
    with pode_step_unrecognized [of c th scs s] Cons.prems
    have "cell \<in> set cs" by auto
    with Cons.IH [of s'] Cons.prems Inr show ?thesis by simp
  qed
qed

text \<open>
  In the frontend a judgment whose tag is neither \<^verbatim>\<open>"object"\<close> nor
  \<^verbatim>\<open>"morphism"\<close> is passed over: the model built, and with it the validation, is
  that of the sequence without the judgment.
\<close>

lemma validateModel_skips_unrecognized:
  "validateModel cls h t (js1 @ Unrecognized tg # js2) = validateModel cls h t (js1 @ js2)"
  by (simp add: validateModel_def catlogModel_eq)

text \<open>
  C6, as stated, does not hold of every load. The sequence of an object declaration and
  of a judgment tagged \<^verbatim>\<open>"equation"\<close> is validated without any error: the model holds
  the object, the other judgment has left no trace, and the result is \<open>Ok\<close>.
\<close>

theorem unrecognized_judgment_skipped:
  "validateModel DblModel_spec [] \<lparr>kind = ''Discrete''\<rparr>
     [Object \<lparr>ob_id = ''1'', ob_name = ''x'', obType = ObBasic ''X''\<rparr>,
      Unrecognized ''equation''] =
     (Some \<lparr>model = 0,
             result = Ok \<lparr>the_theory = \<lparr>kind = ''Discrete''\<rparr>,
                 obs = [\<lparr>ob_id = ''1'', ob_name = ''x'', obType = ObBasic ''X''\<rparr>],
                 mors = []\<rparr>\<rparr>,
      [\<lparr>the_theory = \<lparr>kind = ''Discrete''\<rparr>,
        obs = [\<lparr>ob_id = ''1'', ob_name = ''x'', obType = ObBasic ''X''\<rparr>],
        mors = []\<rparr>])"
  by (simp add: validateModel_supported validate_spec_def Let_def DblModel_spec_sel)

text \<open>
  C6, amended. The analysis page: when the document retrieved for the page has no
  \<^verbatim>\<open>type\<close> or a \<^verbatim>\<open>type\<close> other than \<^verbatim>\<open>"analysis"\<close>, the load fails, with the
  failed invariant once the handle is ready, and no live document is built. The
  Decapodes service: when some judgment of the model, or of the diagram, has no
  \<^verbatim>\<open>tag\<close> or a \<^verbatim>\<open>tag\<close> that is neither \<^verbatim>\<open>"object"\<close> nor \<^verbatim>\<open>"morphism"\<close>,
  building the theory, or the decapode, raises an exception and returns nothing. The
  frontend's \<open>catlogModel\<close>, whose judgments are typed as object or morphism
  declarations, raises nothing for a judgment with another tag: it passes over it.
\<close>

theorem unrecognized_discriminator_aborts:
  "(retrieveDoc ref = Inr (doc, docHandle) \<and> doc_type doc \<noteq> Some ''analysis'' \<longrightarrow>
      (\<exists>e. AnalysisPage retrieveDoc whenReady enliven ref = Inl e) \<and>
      (whenReady docHandle = Inr () \<longrightarrow>
         (\<exists>msg. AnalysisPage retrieveDoc whenReady enliven ref = Inl (InvariantFailed msg)))) \<and>
   (cell \<in> set cs \<and> j_tag cell \<noteq> Some ''object'' \<and> j_tag cell \<noteq> Some ''morphism'' \<longrightarrow>
      (\<exists>e. Theory lowercase cs = Inl e) \<and> (\<exists>e. Decapode cs th scs = Inl e)) \<and>
   validateModel cls h t (js1 @ Unrecognized tg # js2) = validateModel cls h t (js1 @ js2)"
proof (intro conjI impI)
  assume a: "retrieveDoc ref = Inr (doc, docHandle) \<and> doc_type doc \<noteq> Some ''analysis''"
  then show "\<exists>e. AnalysisPage retrieveDoc whenReady enliven ref = Inl e"
    by (cases "whenReady docHandle") (simp_all add: AnalysisPage_def)
  assume "whenReady docHandle = Inr ()"
  with a show "\<exists>msg. AnalysisPage retrieveDoc whenReady enliven ref = Inl (InvariantFailed msg)"
    by (simp add: AnalysisPage_def)
next
  assume a: "cell \<in> set cs \<and> j_tag cell \<noteq> Some ''object'' \<and> j_tag cell \<noteq> Some ''morphism''"
  then show "\<exists>e. Theory lowercase cs = Inl e"
    using theory_loop_unrecognized [of cell cs lowercase Map.empty] by (simp add: Theory_def)
  from a obtain e where
    "pode_loop th scs \<lparr>pode = \<lparr>Var = [], TVar = [], Op1 = []\<rparr>, vars = Map.empty, nc = 0,
              anons = Map.empty\<rparr> cs = Inl e"
    using pode_loop_unrecognized by blast
  then show "\<exists>e. Decapode cs th scs = Inl e"
    by (simp add: Decapode_def)
next
  show "validateModel cls h t (js1 @ Unrecognized tg # js2) = validateModel cls h t (js1 @ js2)"
    by (rule validateModel_skips_unrecognized)
qed

theorem unrecognized_discriminator_aborts_witness:
  "(\<lambda>r. Inr (\<lparr>doc_type = None, doc_modelRef = None, body = ''B''\<rparr>, ''handle''))
     ''0192a5c3-7d1e-7000-8000-0123456789ab'' =
     (Inr (\<lparr>doc_type = None, doc_modelRef = None, body = ''B''\<rparr>, ''handle'')
      :: ReferenceError + (string RetrievedDoc \<times> string)) \<and>
   doc_type \<lparr>doc_type = None, doc_modelRef = None, body = ''B''\<rparr> \<noteq> Some ''analysis'' \<and>
   (\<lambda>h. Inr ()) ''handle'' = (Inr () :: ReferenceError + unit) \<and>
   AnalysisPage
     (\<lambda>r. Inr (\<lparr>doc_type = None, doc_modelRef = None, body = ''B''\<rparr>, ''handle''))
     (\<lambda>h. Inr ()) enlivenModelDocument ''0192a5c3-7d1e-7000-8000-0123456789ab'' =
     (Inl (InvariantFailed ''Expected analysis document, got type: undefined'')
      :: ReferenceError load_error +
         (string, string, (string, string) LiveDocument) LiveAnalysisDocument) \<and>
   \<lparr>j_tag = Some ''equation'', j_id = ''e'', j_name = ''eq'', j_over = None,
     j_dom = None, j_cod = None\<rparr>
     \<in> set [\<lparr>j_tag = Some ''equation'', j_id = ''e'', j_name = ''eq'', j_over = None,
              j_dom = None, j_cod = None\<rparr>] \<and>
   j_tag \<lparr>j_tag = Some ''equation'', j_id = ''e'', j_name = ''eq'', j_over = None,
          j_dom = None, j_cod = None\<rparr> \<noteq> Some ''object'' \<and>
   j_tag \<lparr>j_tag = Some ''equation'', j_id = ''e'', j_name = ''eq'', j_over = None,
          j_dom = None, j_cod = None\<rparr> \<noteq> Some ''morphism'' \<and>
   Theory (\<lambda>s. s)
     [\<lparr>j_tag = Some ''equation'', j_id = ''e'', j_name = ''eq'', j_over = None,
       j_dom = None, j_cod = None\<rparr>] =
     Inl (ImplErrorOf \<lparr>j_tag = Some ''equation'', j_id = ''e'', j_name = ''eq'', j_over = None,
                       j_dom = None, j_cod = None\<rparr>) \<and>
   Decapode
     [\<lparr>j_tag = Some ''equation'', j_id = ''e'', j_name = ''eq'', j_over = None,
       j_dom = None, j_cod = None\<rparr>] Map.empty ([] :: (string \<times> int) list) =
     Inl (KeyError ''content'')"
  using unrecognized_discriminator_aborts
    [of "\<lambda>r. Inr (\<lparr>doc_type = None, doc_modelRef = None, body = ''B''\<rparr>, ''handle'')
             :: ReferenceError + (string RetrievedDoc \<times> string)"
        "''0192a5c3-7d1e-7000-8000-0123456789ab''"
        "\<lparr>doc_type = None, doc_modelRef = None, body = ''B''\<rparr>" "''handle''"
        "\<lambda>h. Inr ()"
        "enlivenModelDocument
           :: string \<Rightarrow> string RetrievedDoc \<Rightarrow> string
              \<Rightarrow> ReferenceError + (string, string) LiveDocument"
        "\<lparr>j_tag = Some ''equation'', j_id = ''e'', j_name = ''eq'', j_over = None,
          j_dom = None, j_cod = None\<rparr>"
        "[\<lparr>j_tag = Some ''equation'', j_id = ''e'', j_name = ''eq'', j_over = None,
           j_dom = None, j_cod = None\<rparr>]"
        "\<lambda>s. s" Map.empty "[] :: (string \<times> int) list"]
  by (simp add: AnalysisPage_def Theory_def theory_step_def Decapode_def pode_step_def)

subsection \<open>The type of the referenced document\<close>

text \<open>
  Once the analysis document has passed its check, the page itself reads neither the
  type of the document stored under the ref of \<^verbatim>\<open>modelRef\<close> nor the taxon of the
  reference: it hands that document to \<^verbatim>\<open>enlivenModelDocument\<close>, and the load
  succeeds or fails as that function does.
\<close>

lemma AnalysisPage_model_unchecked:
  assumes "retrieveDoc ref = Inr (doc, docHandle)" and "whenReady docHandle = Inr ()"
    and "doc_type doc = Some ''analysis''" and "doc_modelRef doc = Some (WithExtern x)"
    and "retrieveDoc (ext_refId x) = Inr (modelDoc, modelDocHandle)"
  shows "AnalysisPage retrieveDoc whenReady enliven ref =
           (case enliven (ext_refId x) modelDoc modelDocHandle of
              Inl e \<Rightarrow> Inl (Rejected e)
            | Inr lm \<Rightarrow>
                Inr \<lparr>la_refId = ref, la_doc = doc, la_docHandle = docHandle, liveModel = lm\<rparr>)"
  using assms by (simp add: AnalysisPage_def)

text \<open>
  An analysis document of the shape that \<^verbatim>\<open>newAnalysisDocument\<close> builds, whose
  \<^verbatim>\<open>modelRef\<close> has no property \<^verbatim>\<open>__extern__\<close>, does not load on this page.
\<close>

lemma AnalysisPage_tagged_ref:
  assumes "retrieveDoc ref = Inr (doc, docHandle)" and "whenReady docHandle = Inr ()"
    and "doc_type doc = Some ''analysis''" and "doc_modelRef doc = Some (WithoutExtern r)"
  shows "AnalysisPage retrieveDoc whenReady enliven ref = Inl TypeError"
  using assms by (simp add: AnalysisPage_def)



subsection \<open>Morphisms with a dangling domain or codomain\<close>

text \<open>
  The frontend keeps every morphism judgment in the model it validates. With the
  validation modelled from the spec, a morphism whose \<open>dom\<close> or \<open>cod\<close> names no
  object of the model makes the result \<open>Err\<close>, with an error that carries its id.
\<close>

lemma morphism_errors_name: "e \<in> set (morphism_errors os m) \<Longrightarrow> inv_judgment e = mor_id m"
  by (auto simp: morphism_errors_def split: if_splits)

lemma frontend_reports_dangling_morphism:
  assumes "kind t = ''Discrete''" and "m \<in> set (declared_mors js)"
    and "dangling (declared_obs js) (dom m) \<or> dangling (declared_obs js) (cod m)"
  shows "\<exists>errs. validateModel DblModel_spec h t js =
           (Some \<lparr>model = length h, result = Err errs\<rparr>,
            h @ [\<lparr>the_theory = t, obs = declared_obs js, mors = declared_mors js\<rparr>]) \<and>
         mor_id m \<in> inv_judgment ` set errs"
proof -
  let ?errs = "concat (map (morphism_errors (declared_obs js)) (declared_mors js))"
  from assms(3) obtain e where e: "e \<in> set (morphism_errors (declared_obs js) m)"
    by (auto simp: morphism_errors_def)
  with assms(2) have mem: "e \<in> set ?errs" by auto
  then have ne: "?errs \<noteq> []" by (metis empty_iff empty_set)
  from e have "inv_judgment e = mor_id m" by (rule morphism_errors_name)
  with mem have "mor_id m \<in> inv_judgment ` set ?errs" by force
  moreover from assms(1) ne have
    "validateModel DblModel_spec h t js =
       (Some \<lparr>model = length h, result = Err ?errs\<rparr>,
        h @ [\<lparr>the_theory = t, obs = declared_obs js, mors = declared_mors js\<rparr>])"
    by (simp add: validateModel_supported built_model validate_spec_def Let_def
        DblModel_spec_sel del: concat_eq_Nil_conv)
  ultimately show ?thesis by blast
qed

text \<open>
  A morphism whose \<open>dom\<close> or \<open>cod\<close> is not a key of \<open>vars\<close>, that is, not the id
  of an object added before it, leaves the whole state as it was: no operator is
  added, nothing is recorded and nothing is raised.
\<close>

lemma add_to_pode_Hom_dangling:
  assumes "j_dom c = Some d" and "j_cod c = Some e"
    and "vars s d = None \<or> vars s e = None"
  shows "add_to_pode_Hom th scs s c = Inr s"
proof (cases "vars s d")
  case None
  with assms(1,2) show ?thesis by (simp add: add_to_pode_Hom_def content_of_def)
next
  case (Some vd)
  with assms show ?thesis by (simp add: add_to_pode_Hom_def content_of_def)
qed

text \<open>
  C1. The claim is that a morphism judgment whose \<open>dom\<close> or \<open>cod\<close> is not among the
  objects added before it is kept and reported as invalid, never dropped without an
  error. In \<open>Decapode\<close> it is dropped: here the model declares the type \<open>t0\<close> and the
  operation \<open>m0\<close>, and the diagram an object \<open>a\<close> and a morphism \<open>g\<close> from \<open>a\<close> to
  the unknown id \<open>zz\<close>. The theory is built, and the decapode is returned without an
  error, with the variable of \<open>a\<close> and with no operator at all.
\<close>

theorem dangling_morphism_dropped:
  "Theory (\<lambda>s. s)
     [\<lparr>j_tag = Some ''object'', j_id = ''t0'', j_name = ''0-form'', j_over = None,
       j_dom = None, j_cod = None\<rparr>,
      \<lparr>j_tag = Some ''morphism'', j_id = ''m0'', j_name = ''d'', j_over = None,
       j_dom = Some ''t0'', j_cod = Some ''t0''\<rparr>] =
     Inr [''t0'' \<mapsto> \<lparr>te_name = ''Form0'', te_val = None\<rparr>,
          ''m0'' \<mapsto> \<lparr>te_name = ''d'' @ u_sub_zero,
                     te_val = Some \<lparr>hd_dom = ''t0'', hd_cod = ''t0''\<rparr>\<rparr>] \<and>
   Decapode
     [\<lparr>j_tag = Some ''object'', j_id = ''a'', j_name = ''x'', j_over = Some ''t0'',
       j_dom = None, j_cod = None\<rparr>,
      \<lparr>j_tag = Some ''morphism'', j_id = ''g'', j_name = ''dx'', j_over = Some ''m0'',
       j_dom = Some ''a'', j_cod = Some ''zz''\<rparr>]
     [''t0'' \<mapsto> \<lparr>te_name = ''Form0'', te_val = None\<rparr>,
      ''m0'' \<mapsto> \<lparr>te_name = ''d'' @ u_sub_zero,
                 te_val = Some \<lparr>hd_dom = ''t0'', hd_cod = ''t0''\<rparr>\<rparr>]
     ([] :: (string \<times> int) list) =
     Inr (\<lparr>Var = [\<lparr>var_name = ''x'', var_type = ''Form0''\<rparr>], TVar = [], Op1 = []\<rparr>,
          Map.empty, [''a'' \<mapsto> 1])"
  by (simp add: Theory_def theory_step_def add_to_theory_Ob_def add_to_theory_Hom_def
      to_decapode_theory_Ob_def to_decapode_theory_Hom_def content_of_def
      Decapode_def pode_step_def add_to_pode_Ob_def add_to_pode_Hom_def Let_def unicode_defs)

subsection \<open>Names of anonymous variables\<close>

lemma decimal_value_snoc:
  "decimal_value (s @ [c]) = 10 * decimal_value s + (of_char c - 48)"
  by (simp add: decimal_value_def)

lemma digit_value: "d < 10 \<Longrightarrow> (of_char (digit d) :: nat) - 48 = d"
  by (simp add: digit_def)

lemma decimal_value_decimal: "decimal_value (decimal n) = n"
proof (induction n rule: decimal.induct)
  case (1 n)
  show ?case
  proof (cases "10 \<le> n")
    case False
    then have "n < 10" by simp
    then have "(of_char (digit n) :: nat) - 48 = n" by (rule digit_value)
    with False show ?thesis
      by (subst decimal.simps) (simp add: decimal_value_def)
  next
    case True
    with "1.IH" have ih: "decimal_value (decimal (n div 10)) = n div 10" by simp
    have "n mod 10 < 10" by simp
    then have d: "(of_char (digit (n mod 10)) :: nat) - 48 = n mod 10"
      by (rule digit_value)
    from True show ?thesis
      by (subst decimal.simps) (simp add: decimal_value_snoc ih d)
  qed
qed

lemma decimal_inj: "decimal m = decimal n \<Longrightarrow> m = n"
  by (metis decimal_value_decimal)

lemma sint_of_nat_small:
  "k < 2 ^ 63 \<Longrightarrow> sint (word_of_nat k :: 64 word) = int k"
proof -
  assume "k < 2 ^ 63"
  then have "int k < 2 ^ 63" by (metis of_nat_less_iff of_nat_numeral of_nat_power)
  then have "signed_take_bit 63 (int k) = int k"
    by (simp add: signed_take_bit_int_eq_self)
  then show ?thesis by (simp add: signed_of_nat)
qed

lemma add_to_pode_Ob_names:
  assumes "add_to_pode_Ob th s c = Inr s'"
  shows "map var_name (Var (pode s')) = map var_name (Var (pode s)) @ var_names (nc s) [c] \<and>
         nc s' = nc s + word_of_nat (anon_count [c])"
  using assms
  by (auto simp: add_to_pode_Ob_def content_of_def anon_count_def Let_def
      split: option.splits)

lemma add_to_pode_Hom_names:
  assumes "add_to_pode_Hom th scs s c = Inr s'"
  shows "Var (pode s') = Var (pode s) \<and> nc s' = nc s"
proof -
  from assms obtain d where d: "j_dom c = Some d"
    by (cases "j_dom c") (simp_all add: add_to_pode_Hom_def content_of_def)
  from assms d obtain e where e: "j_cod c = Some e"
    by (cases "j_cod c") (simp_all add: add_to_pode_Hom_def content_of_def)
  show ?thesis
  proof (cases "vars s d")
    case None
    with assms d e show ?thesis by (simp add: add_to_pode_Hom_def content_of_def)
  next
    case vd: (Some vd)
    show ?thesis
    proof (cases "vars s e")
      case None
      with assms d e vd show ?thesis by (simp add: add_to_pode_Hom_def content_of_def)
    next
      case vc: (Some vc)
      from assms d e vd vc obtain op where op: "nameof th c = Inr op"
        by (cases "nameof th c") (simp_all add: add_to_pode_Hom_def content_of_def)
      from op obtain ov where ov: "j_over c = Some ov"
        by (cases "j_over c") (simp_all add: nameof_def content_of_def)
      from assms d e vd vc op ov show ?thesis
        by (cases "map_of scs ov")
           (auto simp: add_to_pode_Hom_def content_of_def Let_def split: if_splits)
    qed
  qed
qed

lemma var_names_append:
  "var_names n (xs @ ys) = var_names n xs @ var_names (n + word_of_nat (anon_count xs)) ys"
  by (induction xs arbitrary: n) (simp_all add: anon_count_def add.assoc)

lemma pode_loop_names:
  "pode_loop th scs s cs = Inr s' \<Longrightarrow>
   map var_name (Var (pode s')) =
     map var_name (Var (pode s)) @ var_names (nc s) (object_cells cs) \<and>
   nc s' = nc s + word_of_nat (anon_count (object_cells cs))"
proof (induction cs arbitrary: s)
  case Nil
  then show ?case by (simp add: object_cells_def anon_count_def)
next
  case (Cons c cs)
  from Cons.prems obtain s1 where
    step: "pode_step th scs s c = Inr s1" and rest: "pode_loop th scs s1 cs = Inr s'"
    by (auto split: sum.splits)
  note ih = Cons.IH [OF rest]
  from step obtain t where t: "j_tag c = Some t"
    by (cases "j_tag c") (simp_all add: pode_step_def)
  show ?case
  proof (cases "t = ''object''")
    case True
    with step t have "add_to_pode_Ob th s c = Inr s1" by (simp add: pode_step_def)
    from add_to_pode_Ob_names [OF this] ih True t show ?thesis
      by (simp add: object_cells_def anon_count_def add.assoc)
  next
    case False
    with step t have "add_to_pode_Hom th scs s c = Inr s1"
      by (simp add: pode_step_def split: if_splits)
    from add_to_pode_Hom_names [OF this] ih False t show ?thesis
      by (simp add: object_cells_def)
  qed
qed

lemma length_var_names: "length (var_names n cs) = length cs"
  by (induction cs arbitrary: n) simp_all

lemma var_names_nth:
  "i < length cs \<Longrightarrow>
   var_names n cs ! i =
     (if j_name (cs ! i) = []
      then u_bullet @ interpolate (sint (n + word_of_nat (anon_count (take (Suc i) cs))))
      else j_name (cs ! i))"
proof (induction cs arbitrary: n i)
  case Nil
  then show ?case by simp
next
  case (Cons c cs)
  show ?case
  proof (cases i)
    case 0
    then show ?thesis by (simp add: anon_count_def)
  next
    case (Suc k)
    with Cons.prems have k: "k < length cs" by simp
    show ?thesis using Suc Cons.IH [OF k]
      by (simp add: anon_count_def add.assoc)
  qed
qed

lemma anon_count_le: "anon_count (take k cs) \<le> length cs"
  by (simp add: anon_count_def le_trans [OF length_filter_le])

lemma anon_count_pos:
  "i < length cs \<Longrightarrow> j_name (cs ! i) = [] \<Longrightarrow> 0 < anon_count (take (Suc i) cs)"
  by (simp add: anon_count_def take_Suc_conv_app_nth)



lemma anon_count_take_mono: "k \<le> j \<Longrightarrow> anon_count (take k cs) \<le> anon_count (take j cs)"
proof -
  assume "k \<le> j"
  then have "take j cs = take k cs @ take (j - k) (drop k cs)"
    using take_add [of k "j - k" cs] by simp
  then show ?thesis by (simp add: anon_count_def)
qed

lemma anon_count_strict:
  assumes "i < j" and "j < length cs" and "j_name (cs ! j) = []"
  shows "anon_count (take (Suc i) cs) < anon_count (take (Suc j) cs)"
proof -
  from assms(2,3) have "anon_count (take (Suc j) cs) = Suc (anon_count (take j cs))"
    by (simp add: anon_count_def take_Suc_conv_app_nth)
  moreover from assms(1) have "anon_count (take (Suc i) cs) \<le> anon_count (take j cs)"
    by (simp add: anon_count_take_mono)
  ultimately show ?thesis by simp
qed

lemma anon_name:
  assumes "length cs < 2 ^ 63" and "i < length cs" and "j_name (cs ! i) = []"
  shows "var_names 0 cs ! i = u_bullet @ decimal (anon_count (take (Suc i) cs))"
proof -
  have "anon_count (take (Suc i) cs) < 2 ^ 63"
    using anon_count_le [of "Suc i" cs] assms(1) by simp
  then have "sint (word_of_nat (anon_count (take (Suc i) cs)) :: 64 word) =
             int (anon_count (take (Suc i) cs))"
    by (rule sint_of_nat_small)
  with assms(2,3) show ?thesis
    by (simp add: var_names_nth interpolate_def)
qed

text \<open>
  C10. When \<open>Decapode\<close> returns a decapode, its variables are the object judgments of
  the diagram, in order. An object with a non-empty name keeps that name verbatim. An
  object with an empty name is named by the bullet followed by the decimal value of the
  counter, which was incremented for it: the \<open>k\<close>-th anonymous object is named by
  \<open>k\<close>, and two distinct anonymous objects never have the same name. The counter is
  an \<^verbatim>\<open>Int\<close> of 64 bits; the diagram, a Julia vector, has fewer than \<open>2 ^ 63\<close> cells,
  so the counter does not wrap.
\<close>

theorem anonymous_names_fresh:
  assumes "Decapode cs th scs = Inr (p, an, vs)" and "length cs < 2 ^ 63"
  shows "length (Var p) = length (object_cells cs) \<and>
         (\<forall>i < length (object_cells cs).
            (j_name (object_cells cs ! i) \<noteq> [] \<longrightarrow>
               var_name (Var p ! i) = j_name (object_cells cs ! i)) \<and>
            (j_name (object_cells cs ! i) = [] \<longrightarrow>
               var_name (Var p ! i) =
                 u_bullet @ decimal (anon_count (take (Suc i) (object_cells cs))) \<and>
               (\<forall>j < length (object_cells cs).
                  j \<noteq> i \<and> j_name (object_cells cs ! j) = [] \<longrightarrow>
                  var_name (Var p ! j) \<noteq> var_name (Var p ! i))))"
proof -
  let ?obs = "object_cells cs"
  from assms(1) obtain s where
    loop: "pode_loop th scs \<lparr>pode = \<lparr>Var = [], TVar = [], Op1 = []\<rparr>, vars = Map.empty,
             nc = 0, anons = Map.empty\<rparr> cs = Inr s" and p: "p = pode s"
    by (auto simp: Decapode_def split: sum.splits)
  from pode_loop_names [OF loop] p
  have names: "map var_name (Var p) = var_names 0 ?obs" by simp
  then have len: "length (Var p) = length ?obs"
    by (metis length_map length_var_names)
  have nth: "var_name (Var p ! i) = var_names 0 ?obs ! i" if "i < length ?obs" for i
    using names len that by (metis nth_map)
  have bound: "length ?obs < 2 ^ 63"
    using assms(2) by (simp add: object_cells_def le_less_trans [OF length_filter_le])
  have named: "var_name (Var p ! i) = j_name (?obs ! i)"
    if "i < length ?obs" "j_name (?obs ! i) \<noteq> []" for i
    using that by (simp add: nth var_names_nth)
  have anon: "var_name (Var p ! i) = u_bullet @ decimal (anon_count (take (Suc i) ?obs))"
    if "i < length ?obs" "j_name (?obs ! i) = []" for i
    using that by (simp add: nth anon_name [OF bound])
  have fresh: "var_name (Var p ! j) \<noteq> var_name (Var p ! i)"
    if "i < length ?obs" "j_name (?obs ! i) = []" "j < length ?obs" "j_name (?obs ! j) = []"
       "j \<noteq> i" for i j
  proof -
    have "anon_count (take (Suc j) ?obs) \<noteq> anon_count (take (Suc i) ?obs)"
    proof (cases "i < j")
      case True
      from anon_count_strict [OF True that(3,4)] show ?thesis by simp
    next
      case False
      with that(5) have "j < i" by simp
      from anon_count_strict [OF this that(1,2)] show ?thesis by simp
    qed
    then have "decimal (anon_count (take (Suc j) ?obs)) \<noteq>
               decimal (anon_count (take (Suc i) ?obs))"
      using decimal_inj by blast
    then show ?thesis by (simp add: anon that)
  qed
  from len named anon fresh show ?thesis by blast
qed

lemma digit_chars: "digit (Suc 0) = CHR ''1''" "digit (Suc (Suc 0)) = CHR ''2''"
  by code_simp+

theorem anonymous_names_fresh_witness:
  "Decapode
     [\<lparr>j_tag = Some ''object'', j_id = ''a'', j_name = [], j_over = Some ''t0'',
       j_dom = None, j_cod = None\<rparr>,
      \<lparr>j_tag = Some ''object'', j_id = ''b'', j_name = ''x'', j_over = Some ''t0'',
       j_dom = None, j_cod = None\<rparr>,
      \<lparr>j_tag = Some ''morphism'', j_id = ''f'', j_name = [], j_over = Some ''m0'',
       j_dom = Some ''a'', j_cod = Some ''b''\<rparr>,
      \<lparr>j_tag = Some ''object'', j_id = ''c'', j_name = [], j_over = Some ''t0'',
       j_dom = None, j_cod = None\<rparr>]
     [''t0'' \<mapsto> \<lparr>te_name = ''Form0'', te_val = None\<rparr>,
      ''m0'' \<mapsto> \<lparr>te_name = ''d'' @ u_sub_zero,
                 te_val = Some \<lparr>hd_dom = ''t0'', hd_cod = ''t0''\<rparr>\<rparr>]
     ([] :: (string \<times> int) list) =
     Inr (\<lparr>Var = [\<lparr>var_name = u_bullet @ ''1'', var_type = ''Form0''\<rparr>,
                  \<lparr>var_name = ''x'', var_type = ''Form0''\<rparr>,
                  \<lparr>var_name = u_bullet @ ''2'', var_type = ''Form0''\<rparr>],
           TVar = [],
           Op1 = [\<lparr>src = 1, tgt = 2, op1 = ''d'' @ u_sub_zero\<rparr>]\<rparr>,
          Map.empty, [''a'' \<mapsto> 1, ''b'' \<mapsto> 2, ''c'' \<mapsto> 3]) \<and>
   length
     [\<lparr>j_tag = Some ''object'', j_id = ''a'', j_name = [], j_over = Some ''t0'',
       j_dom = None, j_cod = None\<rparr>,
      \<lparr>j_tag = Some ''object'', j_id = ''b'', j_name = ''x'', j_over = Some ''t0'',
       j_dom = None, j_cod = None\<rparr>,
      \<lparr>j_tag = Some ''morphism'', j_id = ''f'', j_name = [], j_over = Some ''m0'',
       j_dom = Some ''a'', j_cod = Some ''b''\<rparr>,
      \<lparr>j_tag = Some ''object'', j_id = ''c'', j_name = [], j_over = Some ''t0'',
       j_dom = None, j_cod = None\<rparr>] < 2 ^ 63 \<and>
   var_name (Var \<lparr>Var = [\<lparr>var_name = u_bullet @ ''1'', var_type = ''Form0''\<rparr>,
                  \<lparr>var_name = ''x'', var_type = ''Form0''\<rparr>,
                  \<lparr>var_name = u_bullet @ ''2'', var_type = ''Form0''\<rparr>],
           TVar = [],
           Op1 = [\<lparr>src = 1, tgt = 2, op1 = ''d'' @ u_sub_zero\<rparr>]\<rparr> ! 2) \<noteq> u_bullet @ ''1''"
proof -
  let ?cs = "[\<lparr>j_tag = Some ''object'', j_id = ''a'', j_name = [], j_over = Some ''t0'',
       j_dom = None, j_cod = None\<rparr>,
      \<lparr>j_tag = Some ''object'', j_id = ''b'', j_name = ''x'', j_over = Some ''t0'',
       j_dom = None, j_cod = None\<rparr>,
      \<lparr>j_tag = Some ''morphism'', j_id = ''f'', j_name = [], j_over = Some ''m0'',
       j_dom = Some ''a'', j_cod = Some ''b''\<rparr>,
      \<lparr>j_tag = Some ''object'', j_id = ''c'', j_name = [], j_over = Some ''t0'',
       j_dom = None, j_cod = None\<rparr>]"
  let ?th = "[''t0'' \<mapsto> \<lparr>te_name = ''Form0'', te_val = None\<rparr>,
      ''m0'' \<mapsto> \<lparr>te_name = ''d'' @ u_sub_zero,
                 te_val = Some \<lparr>hd_dom = ''t0'', hd_cod = ''t0''\<rparr>\<rparr>]"
  let ?p = "\<lparr>Var = [\<lparr>var_name = u_bullet @ ''1'', var_type = ''Form0''\<rparr>,
                  \<lparr>var_name = ''x'', var_type = ''Form0''\<rparr>,
                  \<lparr>var_name = u_bullet @ ''2'', var_type = ''Form0''\<rparr>],
           TVar = [],
           Op1 = [\<lparr>src = 1, tgt = 2, op1 = ''d'' @ u_sub_zero\<rparr>]\<rparr>"
  have a: "Decapode ?cs ?th ([] :: (string \<times> int) list) =
             Inr (?p, Map.empty, [''a'' \<mapsto> 1, ''b'' \<mapsto> 2, ''c'' \<mapsto> 3])"
    by (simp add: Decapode_def pode_step_def add_to_pode_Ob_def add_to_pode_Hom_def
        nameof_def content_of_def Let_def unicode_defs interpolate_def decimal.simps
        digit_chars numeral_2_eq_2 numeral_3_eq_3)
  have b: "length ?cs < 2 ^ 63" by simp
  have c: "(0::nat) < length (object_cells ?cs)" "(2::nat) < length (object_cells ?cs)"
    by (simp_all add: object_cells_def)
  from anonymous_names_fresh [OF a b] c a b show ?thesis
    by (simp add: object_cells_def)
qed

end
